theory Spec2Isabelle
  imports Complex_Main "HOL-Library.Sublist" "HOL-Library.AList"
begin

section \<open>Stage G: issue records and the quality score\<close>

text \<open>
  The issue interfaces of the analysis agent. Every issue carries a line, a message and a
  severity; the per-subtaxonomy interfaces add a \<open>type\<close> tag (a closed union of string
  literals in the source, a datatype here) and a suggestion. JavaScript numbers that hold
  line numbers, offsets and scores are integers here. Fields that several interfaces
  share (\<open>line\<close>, \<open>message\<close>, \<open>severity\<close>; \<open>filename\<close>) sit in a common base record.
\<close>

datatype severity = Error | Warning | Info | Success

datatype api_issue_type =
  deprecated_api | missing_await | inefficient_selector | missing_error_handling

datatype selector_issue_type =
  brittle_selector | class_based_selector | case_sensitive_text | good_selector

datatype performance_issue_type =
  excessive_wait | networkidle_usage | multiple_navigations

datatype maintainability_issue_type =
  hardcoded_values | hardcoded_assertions | missing_describe_block

datatype best_practice_issue_type =
  missing_imports | test_only_usage | no_assertions

datatype impact = High | Medium | Low

record Diagnostic =
  line :: int
  message :: string
  severity :: severity

record SyntaxError = Diagnostic +
  character :: int
  code :: int

record 't Issue = Diagnostic +
  type :: 't
  suggestion :: string

record SelectorQualityIssue = "selector_issue_type Issue" +
  robustnessScore :: int

record PerformanceIssue = "performance_issue_type Issue" +
  impact :: impact

type_synonym PlaywrightAPIIssue = "api_issue_type Issue"
type_synonym MaintainabilityIssue = "maintainability_issue_type Issue"
type_synonym BestPracticeIssue = "best_practice_issue_type Issue"

record Named =
  filename :: string

record PlaywrightTest = Named +
  content :: string

record TestAnalysisResult = Named +
  syntaxErrors :: "SyntaxError list"
  warningsAndBestPractices :: "BestPracticeIssue list"
  playwrightApiIssues :: "PlaywrightAPIIssue list"
  selectorQualityIssues :: "SelectorQualityIssue list"
  performanceIssues :: "PerformanceIssue list"
  maintainabilityIssues :: "MaintainabilityIssue list"
  overallScore :: int
  recommendedFixes :: "string list"

text \<open>
  \<open>calculateQualityScore\<close>: the running \<open>score\<close> variable of the source is threaded
  through the seven assignments in their order, then clamped by
  \<open>Math.max(0, Math.min(100, score))\<close>.
\<close>

definition calculateQualityScore :: "TestAnalysisResult \<Rightarrow> int" where
  "calculateQualityScore analysis =
    (let score = 100;
         score = score - int (length (syntaxErrors analysis)) * 15;
         score = score - int (length (filter (\<lambda>i. severity i = Error) (playwrightApiIssues analysis))) * 10;
         score = score - int (length (filter (\<lambda>i. severity i = Warning) (playwrightApiIssues analysis))) * 5;
         score = score - int (length (filter (\<lambda>i. severity i = Warning) (selectorQualityIssues analysis))) * 3;
         score = score - int (length (performanceIssues analysis)) * 2;
         score = score - int (length (maintainabilityIssues analysis)) * 2;
         score = score + int (length (filter (\<lambda>i. type i = good_selector) (selectorQualityIssues analysis))) * 2
     in max 0 (min 100 score))"

text \<open>
  The scoring rule in the specification's words: a deduction per issue, a bonus per
  positive locator-quality signal, summed over the issue lists and clamped.
\<close>

definition spec_api_deduction :: "PlaywrightAPIIssue \<Rightarrow> int" where
  "spec_api_deduction i =
    (if severity i = Error then 10 else if severity i = Warning then 5 else 0)"

definition spec_selector_deduction :: "SelectorQualityIssue \<Rightarrow> int" where
  "spec_selector_deduction i = (if severity i = Warning then 3 else 0)"

definition spec_selector_bonus :: "SelectorQualityIssue \<Rightarrow> int" where
  "spec_selector_bonus i = (if type i = good_selector then 2 else 0)"

definition spec_score :: "TestAnalysisResult \<Rightarrow> int" where
  "spec_score a =
    max 0 (min 100
      (100
       - (\<Sum>i\<leftarrow>syntaxErrors a. 15)
       - (\<Sum>i\<leftarrow>playwrightApiIssues a. spec_api_deduction i)
       - (\<Sum>i\<leftarrow>selectorQualityIssues a. spec_selector_deduction i)
       - (\<Sum>i\<leftarrow>performanceIssues a. 2)
       - (\<Sum>i\<leftarrow>maintainabilityIssues a. 2)
       + (\<Sum>i\<leftarrow>selectorQualityIssues a. spec_selector_bonus i)))"

text \<open>
  A positive locator-quality signal is an entry of the selector list tagged
  \<open>good_selector\<close> that is not at warning severity (the detector emits it at severity
  \<open>success\<close>); every other entry of that list is an issue proper.
\<close>

definition positive_signal :: "SelectorQualityIssue \<Rightarrow> bool" where
  "positive_signal i = (type i = good_selector \<and> severity i \<noteq> Warning)"


section \<open>JavaScript string operations\<close>

text \<open>
  Strings are lists of characters, and a character is a UTF-16 code unit below 256 (the
  Latin-1 range): text with code units from 256 on is outside this development. Case
  mapping and the character classes of the regular expressions are those of JavaScript
  on that range; the patterns the source searches for and splits on are ASCII.
\<close>

definition str_includes :: "string \<Rightarrow> string \<Rightarrow> bool" where
  \<comment> \<open>\<open>s.includes(sub)\<close> of the source: \<open>sub\<close> occurs in \<open>s\<close> as a contiguous run\<close>
  "str_includes s sub = sublist sub s"

text \<open>\<open>s.split(sep)\<close> for a non-empty separator: cut at each occurrence, left to right.\<close>

function split_acc :: "string \<Rightarrow> string \<Rightarrow> string \<Rightarrow> string list" where
  "split_acc sep acc [] = [rev acc]"
| "split_acc sep acc (c # cs) =
     (if sep \<noteq> [] \<and> prefix sep (c # cs)
      then rev acc # split_acc sep [] (drop (length sep) (c # cs))
      else split_acc sep (c # acc) cs)"
  by pat_completeness auto
termination
  by (relation "measure (\<lambda>(sep, acc, s). length s)") auto

definition split_on :: "string \<Rightarrow> string \<Rightarrow> string list" where
  "split_on s sep = split_acc sep [] s"

definition newline :: string where
  "newline = [CHR 0x0A]"

definition quote :: string where
  \<comment> \<open>the single-quote character, for patterns and messages that contain it\<close>
  "quote = [CHR 0x27]"



text \<open>
  \<open>lines.forEach((line, index) => ...)\<close> with \<open>issues.push\<close> in its body: the issues
  pushed while visiting one line, concatenated over the lines in order; \<open>lineNum\<close> is
  \<open>index + 1\<close>.
\<close>

definition forEach_line :: "(int \<Rightarrow> string \<Rightarrow> 'a list) \<Rightarrow> string list \<Rightarrow> 'a list" where
  "forEach_line body lines =
     concat (map (\<lambda>(index, line'). body (int index + 1) line') (enumerate 0 lines))"


section \<open>Stage G: the detectors\<close>

subsection \<open>API usage\<close>






definition missingAwaitIssue :: "int \<Rightarrow> PlaywrightAPIIssue" where
  "missingAwaitIssue lineNum =
     \<lparr>line = lineNum,
      message = ''Playwright method call missing await keyword'',
      severity = Error,
      type = missing_await,
      suggestion = ''Add await before Playwright method calls''\<rparr>"





subsection \<open>Selector quality\<close>

definition brittleSelectorIssue :: "int \<Rightarrow> SelectorQualityIssue" where
  "brittleSelectorIssue lineNum =
     \<lparr>line = lineNum,
      message = ''CSS/XPath selectors are brittle and hard to maintain'',
      severity = Warning,
      type = brittle_selector,
      suggestion = ''Use semantic selectors like getByRole(), getByLabel(), or getByTestId()'',
      robustnessScore = 3\<rparr>"



definition goodSelectorIssue :: "int \<Rightarrow> SelectorQualityIssue" where
  "goodSelectorIssue lineNum =
     \<lparr>line = lineNum,
      message = ''Good use of semantic selector'',
      severity = Success,
      type = good_selector,
      suggestion = ''Keep using semantic selectors for better maintainability'',
      robustnessScore = 9\<rparr>"




subsection \<open>Performance\<close>

definition excessiveWaitIssue :: "int \<Rightarrow> PerformanceIssue" where
  "excessiveWaitIssue lineNum =
     \<lparr>line = lineNum,
      message = ''Long timeout may slow down test execution'',
      severity = Warning,
      type = excessive_wait,
      suggestion = ''Use specific waitFor conditions instead of fixed timeouts'',
      impact = Medium\<rparr>"

definition networkidleIssue :: "int \<Rightarrow> PerformanceIssue" where
  "networkidleIssue lineNum =
     \<lparr>line = lineNum,
      message = ''networkidle can cause unnecessary delays'',
      severity = Info,
      type = networkidle_usage,
      suggestion = ''Consider using domcontentloaded or specific element waits'',
      impact = Low\<rparr>"

definition multipleNavigationsIssue :: "int \<Rightarrow> PerformanceIssue" where
  "multipleNavigationsIssue lineNum =
     \<lparr>line = lineNum,
      message = ''Multiple page navigations detected'',
      severity = Info,
      type = multiple_navigations,
      suggestion = ''Consider combining related actions in single page context'',
      impact = Medium\<rparr>"

definition navigateCount :: "string \<Rightarrow> int" where
  \<comment> \<open>\<open>content.split('goto(').length - 1\<close>\<close>
  "navigateCount src = int (length (split_on src ''goto('')) - 1"

definition performanceLineIssues :: "string \<Rightarrow> int \<Rightarrow> string \<Rightarrow> PerformanceIssue list" where
  "performanceLineIssues src lineNum line' =
     (if str_includes line' ''waitForTimeout'' \<and> str_includes line' ''5000''
      then [excessiveWaitIssue lineNum] else [])
     @ (if str_includes line' ''networkidle'' then [networkidleIssue lineNum] else [])
     @ (if navigateCount src > 1 then [multipleNavigationsIssue lineNum] else [])"

definition analyzePerformanceIssues :: "string \<Rightarrow> PerformanceIssue list" where
  "analyzePerformanceIssues src =
     forEach_line (performanceLineIssues src) (split_on src newline)"

subsection \<open>Maintainability\<close>







subsection \<open>Best practices\<close>




definition noAssertionsIssue :: BestPracticeIssue where
  "noAssertionsIssue =
     \<lparr>line = 1,
      message = ''No assertions found in test'',
      severity = Error,
      type = no_assertions,
      suggestion = ''Add expect() assertions to verify test outcomes''\<rparr>"


subsection \<open>Analysis of one generated file\<close>



subsection \<open>Sample generated files\<close>

fun join :: "string list \<Rightarrow> string \<Rightarrow> string" where
  \<comment> \<open>\<open>xs.join(sep)\<close> on an array of strings\<close>
  "join [] sep = []"
| "join [x] sep = x"
| "join (x # y # ys) sep = x @ sep @ join (y # ys) sep"







text \<open>A three-line file with two navigation calls, on its first and third line.\<close>

definition two_navigations :: string where
  "two_navigations =
     join [''await page.goto('' @ quote @ ''/a'' @ quote @ '');'',
           ''await page.reload();'',
           ''await page.goto('' @ quote @ ''/b'' @ quote @ '');''] newline"

text \<open>An analysis whose only entry is one API-usage issue at error severity.\<close>

definition one_error_analysis :: TestAnalysisResult where
  "one_error_analysis =
     \<lparr>filename = ''opens-desktop.spec.ts'',
      syntaxErrors = [],
      warningsAndBestPractices = [],
      playwrightApiIssues = [missingAwaitIssue 4],
      selectorQualityIssues = [],
      performanceIssues = [],
      maintainabilityIssues = [],
      overallScore = 0,
      recommendedFixes = []\<rparr>"


section \<open>Model Invocation Client: retry with backoff\<close>

text \<open>
  The language model is outside the program. Here it is a function that gives, for the
  \<open>k\<close>-th invocation made so far and the two prompts, either the text it answers
  (\<open>Inr\<close>) or the rendering \<open>`${error}`\<close> of what it throws (\<open>Inl\<close>). The client's
  observable effects are recorded in a trace: each call of the underlying model and each
  \<open>setTimeout\<close> sleep with its duration in milliseconds. Attempt counts are integers.
\<close>

datatype event = Invoke | Sleep int

record world =
  calls :: nat
  trace :: "event list"

datatype failure = Failure string | TypeError | JsonSyntaxError

type_synonym llm = "nat \<Rightarrow> string \<Rightarrow> string \<Rightarrow> string + string"

definition digit :: "nat \<Rightarrow> char" where
  "digit d = ''0123456789'' ! d"

function showNat :: "nat \<Rightarrow> string" where
  "showNat n = (if n < 10 then [digit n] else showNat (n div 10) @ [digit (n mod 10)])"
  by pat_completeness auto
termination
  by (relation "measure (\<lambda>n. n)") auto

definition showInt :: "int \<Rightarrow> string" where
  \<comment> \<open>the decimal rendering of an integer inside a template literal\<close>
  "showInt i = (if i < 0 then ''-'' @ showNat (nat (- i)) else showNat (nat i))"

definition generateResponse ::
  "llm \<Rightarrow> string \<Rightarrow> string \<Rightarrow> world \<Rightarrow> (failure + string) \<times> world" where
  "generateResponse model systemPrompt userPrompt w =
     (let w' = w\<lparr>calls := calls w + 1, trace := trace w @ [Invoke]\<rparr>
      in case model (calls w) systemPrompt userPrompt of
           Inr text \<Rightarrow> (Inr text, w')
         | Inl err \<Rightarrow> (Inl (Failure (''Failed to generate LLM response: '' @ err)), w'))"

definition sleep :: "int \<Rightarrow> world \<Rightarrow> world" where
  "sleep ms w = w\<lparr>trace := trace w @ [Sleep ms]\<rparr>"

text \<open>
  The \<open>for\<close> loop of \<open>generateWithRetry\<close>, from the current value of \<open>attempt\<close>, with
  the \<open>lastError\<close> variable (unassigned before the first failure). After the loop the
  source reads \<open>lastError!.message\<close>, which throws a \<open>TypeError\<close> when no attempt was made.
\<close>

function retry_loop ::
  "llm \<Rightarrow> string \<Rightarrow> string \<Rightarrow> int \<Rightarrow> int \<Rightarrow> failure option \<Rightarrow> world
     \<Rightarrow> (failure + string) \<times> world" where
  "retry_loop model systemPrompt userPrompt retries attempt lastError w =
     (if attempt \<le> retries then
        (case generateResponse model systemPrompt userPrompt w of
           (Inr text, w') \<Rightarrow> (Inr text, w')
         | (Inl err, w') \<Rightarrow>
             retry_loop model systemPrompt userPrompt retries (attempt + 1) (Some err)
               (if attempt < retries then sleep (2 ^ nat attempt * 1000) w' else w'))
      else
        (case lastError of
           Some (Failure msg) \<Rightarrow>
             (Inl (Failure (''LLM failed after '' @ showInt retries
                            @ '' attempts. Last error: '' @ msg)), w)
         | _ \<Rightarrow> (Inl TypeError, w)))"
  by pat_completeness auto
termination
  by (relation "measure (\<lambda>(model, sp, up, retries, attempt, lastError, w).
        nat (retries + 1 - attempt))") auto

definition truthy :: "int option \<Rightarrow> bool" where
  \<comment> \<open>a number that is neither \<open>undefined\<close> nor zero\<close>
  "truthy n = (case n of None \<Rightarrow> False | Some v \<Rightarrow> v \<noteq> 0)"

definition generateWithRetry ::
  "int option \<Rightarrow> llm \<Rightarrow> string \<Rightarrow> string \<Rightarrow> int option \<Rightarrow> world
     \<Rightarrow> (failure + string) \<times> world" where
  \<comment> \<open>the first argument is \<open>this.config.maxRetries\<close>\<close>
  "generateWithRetry configMaxRetries model systemPrompt userPrompt maxRetries w =
     (let retries = (if truthy maxRetries then the maxRetries
                     else if truthy configMaxRetries then the configMaxRetries
                     else 3)
      in retry_loop model systemPrompt userPrompt retries 1 None w)"

definition start :: world where
  "start = \<lparr>calls = 0, trace = []\<rparr>"

definition always_failing :: llm where
  \<comment> \<open>a model whose \<open>k\<close>-th call throws \<open>timeout k\<close>\<close>
  "always_failing k systemPrompt userPrompt = Inl (''Error: timeout '' @ showNat k)"


section \<open>Knowledge Retriever\<close>

definition toLowerChar :: "char \<Rightarrow> char" where
  \<comment> \<open>\<open>A\<close> to \<open>Z\<close>, and the accented capitals of the Latin-1 range (code units 192 to
     222 other than the multiplication sign 215), go to their small letters\<close>
  "toLowerChar c =
     (let n = (of_char c :: nat)
      in if (65 \<le> n \<and> n \<le> 90) \<or> (192 \<le> n \<and> n \<le> 222 \<and> n \<noteq> 215)
         then char_of (n + 32) else c)"

definition toLowerCase :: "string \<Rightarrow> string" where
  "toLowerCase s = map toLowerChar s"

definition isSpace :: "char \<Rightarrow> bool" where
  \<comment> \<open>the class \<open>\s\<close>, which is also what \<open>trim\<close> removes: tab, line feed, vertical
     tab, form feed, carriage return, space and the no-break space (code unit 160)\<close>
  "isSpace c = (let n = (of_char c :: nat) in (9 \<le> n \<and> n \<le> 13) \<or> n = 32 \<or> n = 160)"

definition isWordChar :: "char \<Rightarrow> bool" where
  \<comment> \<open>the class \<open>\w\<close>: letters, digits and the underscore\<close>
  "isWordChar c =
     (let n = (of_char c :: nat)
      in (48 \<le> n \<and> n \<le> 57) \<or> (65 \<le> n \<and> n \<le> 90) \<or> n = 95 \<or> (97 \<le> n \<and> n \<le> 122))"

text \<open>
  The knowledge base: two catalogs, each an object of objects, listed in the order
  \<open>Object.entries\<close> visits them. A result of type \<open>Record<string, string>\<close> is an
  association list; assigning to a key that is present replaces the value in place, and a
  new key goes to the end.
\<close>

type_synonym catalog = "(string \<times> (string \<times> string) list) list"

record KnowledgeBase =
  kb_selectors :: catalog
  kb_endpoints :: catalog

definition entryMatches :: "string \<Rightarrow> string \<Rightarrow> string \<Rightarrow> bool" where
  \<comment> \<open>the condition of the innermost \<open>if\<close>, shared by both retrieval loops\<close>
  "entryMatches category name keyword =
     (str_includes name (toLowerCase keyword)
      \<or> str_includes category (toLowerCase keyword)
      \<or> str_includes (toLowerCase keyword) name
      \<or> str_includes (toLowerCase keyword) category)"

definition findRelevantSelectors :: "KnowledgeBase \<Rightarrow> string list \<Rightarrow> (string \<times> string) list" where
  "findRelevantSelectors kb keywords =
     foldl (\<lambda>relevant keyword.
        foldl (\<lambda>relevant (category, selectors).
           foldl (\<lambda>relevant (name, selector).
              if entryMatches category name keyword
              then AList.update (category @ ''.'' @ name) selector relevant
              else relevant)
             relevant selectors)
          relevant (kb_selectors kb))
       [] keywords"

definition findRelevantEndpoints :: "KnowledgeBase \<Rightarrow> string list \<Rightarrow> string list" where
  "findRelevantEndpoints kb keywords =
     foldl (\<lambda>relevant keyword.
        foldl (\<lambda>relevant (category, endpoints).
           foldl (\<lambda>relevant (name, endpoint).
              if entryMatches category name keyword
              then relevant @ [category @ ''.'' @ name @ '': '' @ endpoint]
              else relevant)
             relevant endpoints)
          relevant (kb_endpoints kb))
       [] keywords"

text \<open>\<open>s.split(/\s+/)\<close>: cut at each maximal run of whitespace.\<close>

function split_spaces_acc :: "string \<Rightarrow> string \<Rightarrow> string list" where
  "split_spaces_acc acc [] = [rev acc]"
| "split_spaces_acc acc (c # cs) =
     (if isSpace c then rev acc # split_spaces_acc [] (dropWhile isSpace cs)
      else split_spaces_acc (c # acc) cs)"
  by pat_completeness auto
termination
  by (relation "measure (\<lambda>(acc, s). length s)")
     (auto simp: length_dropWhile_le less_Suc_eq_le)

definition commonWords :: "string list" where
  "commonWords = [''the'', ''a'', ''an'', ''and'', ''or'', ''but'', ''in'', ''on'', ''at'', ''to'',
     ''for'', ''of'', ''with'', ''by'', ''user'', ''should'', ''can'', ''will'']"

definition extractKeywords :: "string \<Rightarrow> string list" where
  "extractKeywords text =
     filter (\<lambda>word. length word > 2 \<and> word \<notin> set commonWords)
       (split_spaces_acc []
          (map (\<lambda>c. if isWordChar c \<or> isSpace c then c else CHR '' '') (toLowerCase text)))"

definition signin_kb :: KnowledgeBase where
  \<comment> \<open>a knowledge base with the single selector entry \<open>forms.sign_in\<close>\<close>
  "signin_kb = \<lparr>kb_selectors = [(''forms'', [(''sign_in'', ''#sign-in'')])], kb_endpoints = []\<rparr>"


section \<open>Model responses\<close>

text \<open>
  A value produced by \<open>JSON.parse\<close>. Reading a property yields \<open>None\<close> for
  \<open>undefined\<close>. \<open>JSON.parse\<close> itself is outside the program: it is a parameter that
  gives \<open>None\<close> where it throws a \<open>SyntaxError\<close>. An object is the list of its entries,
  each key once.
\<close>

datatype json =
  JNull | JBool bool | JNum rat | JStr string | JArr "json list" | JObj "(string \<times> json) list"

fun truthy_json :: "json option \<Rightarrow> bool" where
  "truthy_json None = False"
| "truthy_json (Some JNull) = False"
| "truthy_json (Some (JBool b)) = b"
| "truthy_json (Some (JNum n)) = (n \<noteq> 0)"
| "truthy_json (Some (JStr s)) = (s \<noteq> [])"
| "truthy_json (Some (JArr xs)) = True"
| "truthy_json (Some (JObj kvs)) = True"

fun get_field :: "json \<Rightarrow> string \<Rightarrow> failure + json option" where
  \<comment> \<open>\<open>value[field]\<close> for one of the field names the agents read: a \<open>TypeError\<close> on
     \<open>null\<close>, \<open>undefined\<close> on a primitive or an array\<close>
  "get_field JNull field = Inl TypeError"
| "get_field (JObj kvs) field = Inr (map_of kvs field)"
| "get_field v field = Inr None"

definition or_else :: "json option \<Rightarrow> json \<Rightarrow> json" where
  \<comment> \<open>\<open>value || fallback\<close>\<close>
  "or_else v fallback = (if truthy_json v then the v else fallback)"

text \<open>\<open>s.replace(/fence\s*/g, '')\<close>, \<open>s.replace(/\s+/g, r)\<close> and \<open>s.trim()\<close>.\<close>

function remove_fence :: "string \<Rightarrow> string \<Rightarrow> string" where
  "remove_fence fence [] = []"
| "remove_fence fence (c # cs) =
     (if fence \<noteq> [] \<and> prefix fence (c # cs)
      then remove_fence fence (dropWhile isSpace (drop (length fence) (c # cs)))
      else c # remove_fence fence cs)"
  by pat_completeness auto
termination
proof (relation "measure (\<lambda>(fence, s). length s)", goal_cases)
  case 1
  show ?case by simp
next
  case (2 fence c cs)
  have "length (dropWhile isSpace (drop (length fence) (c # cs)))
          \<le> length (drop (length fence) (c # cs))"
    by (rule length_dropWhile_le)
  also have "\<dots> < length (c # cs)"
    using 2 by (cases fence) simp_all
  finally show ?case by simp
next
  case 3
  show ?case by simp
qed

function replace_runs :: "(char \<Rightarrow> bool) \<Rightarrow> string \<Rightarrow> string \<Rightarrow> string" where
  "replace_runs P r [] = []"
| "replace_runs P r (c # cs) =
     (if P c then r @ replace_runs P r (dropWhile P cs) else c # replace_runs P r cs)"
  by pat_completeness auto
termination
  by (relation "measure (\<lambda>(P, r, s). length s)")
     (auto simp: length_dropWhile_le less_Suc_eq_le)

definition trim :: "string \<Rightarrow> string" where
  "trim s = rev (dropWhile isSpace (rev (dropWhile isSpace s)))"

definition fence :: string where
  \<comment> \<open>three backquotes\<close>
  "fence = [CHR 0x60, CHR 0x60, CHR 0x60]"

definition cleanResponse :: "string \<Rightarrow> string" where
  \<comment> \<open>the clean-up of a model answer shared by Stage A and Stage B\<close>
  "cleanResponse response = trim (remove_fence fence (remove_fence (fence @ ''json'') response))"

definition render :: "failure \<Rightarrow> string" where
  \<comment> \<open>\<open>`${error}`\<close>; the engine's text after \<open>TypeError\<close> or \<open>SyntaxError\<close> is left out\<close>
  "render e =
     (case e of
        Failure msg \<Rightarrow> ''Error: '' @ msg
      | TypeError \<Rightarrow> ''TypeError''
      | JsonSyntaxError \<Rightarrow> ''SyntaxError'')"


section \<open>Stage A: scenario expansion\<close>

text \<open>
  The interfaces \<open>UserStory\<close>, \<open>TestScenario\<close> and \<open>ValidatedScenario\<close>. The record
  of a scenario is parametric in the types of its values: Stage A fills it with whatever
  the model's JSON holds, so there the fields are JSON values; Stages B and C take it
  as the interface declares it, with strings, a list of steps and an optional device. The
  field \<open>type\<close> of a scenario is written \<open>type'\<close>.
\<close>

record 's Described =
  description :: 's

record UserStory = "string Described" +
  acceptance_criteria :: "string list option"

record ('s, 'l, 'd) TestScenario = "'s Described" +
  title :: 's
  type' :: 's
  steps :: 'l
  expected_outcome :: 's
  device :: 'd

record ('s, 'l, 'd) ValidatedScenario = "('s, 'l, 'd) TestScenario" +
  selectors :: json
  api_endpoints :: json
  validation_notes :: json

type_synonym ParsedScenario = "(json, json, json) TestScenario"
type_synonym Scenario = "(string, string list, string option) TestScenario"

definition scenarioTypes :: "string list" where
  "scenarioTypes = [''positive'', ''negative'', ''edge'', ''cross-device'']"

definition requiredFields :: "string list" where
  "requiredFields = [''title'', ''type'', ''description'', ''steps'', ''expected_outcome'']"

definition missingFields :: "json \<Rightarrow> string list" where
  "missingFields scenario =
     filter (\<lambda>field. \<not> truthy_json (case get_field scenario field of Inr v \<Rightarrow> v | Inl e \<Rightarrow> None))
       requiredFields"

definition validateScenario :: "json \<Rightarrow> nat \<Rightarrow> failure + ParsedScenario" where
  "validateScenario scenario index =
     (if scenario = JNull then Inl TypeError
      else if missingFields scenario \<noteq> [] then
        Inl (Failure (''Scenario '' @ showNat index @ '' missing fields: ''
                      @ join (missingFields scenario) '', ''))
      else
        (let field = (\<lambda>name. case get_field scenario name of Inr v \<Rightarrow> v | Inl e \<Rightarrow> None);
             scenario_type =
               (if the (field ''type'') \<in> set (map JStr scenarioTypes)
                then the (field ''type'') else JStr ''positive'');
             scenario_steps =
               (case the (field ''steps'') of
                  JArr xs \<Rightarrow> JArr xs
                | other \<Rightarrow> JArr (filter (\<lambda>x. truthy_json (Some x)) [other]))
         in Inr \<lparr>description = the (field ''description''),
                 title = the (field ''title''),
                 type' = scenario_type,
                 steps = scenario_steps,
                 expected_outcome = the (field ''expected_outcome''),
                 device = or_else (field ''device'')
                            (if scenario_type = JStr ''cross-device''
                             then JStr ''mobile'' else JStr ''desktop'')\<rparr>))"

fun validateAll :: "json list \<Rightarrow> nat \<Rightarrow> failure + ParsedScenario list" where
  \<comment> \<open>\<open>scenarios.map((scenario, index) => this.validateScenario(scenario, index))\<close>; the
     first element that throws ends the map\<close>
  "validateAll [] index = Inr []"
| "validateAll (x # xs) index =
     (case validateScenario x index of
        Inl e \<Rightarrow> Inl e
      | Inr s \<Rightarrow> (case validateAll xs (index + 1) of Inl e \<Rightarrow> Inl e | Inr ss \<Rightarrow> Inr (s # ss)))"

definition parseScenarios :: "(string \<Rightarrow> json option) \<Rightarrow> string \<Rightarrow> failure + ParsedScenario list" where
  "parseScenarios jsonParse response =
     (let wrap = (\<lambda>rendered. Inl (Failure (''Failed to parse scenarios: '' @ rendered)))
      in case jsonParse (cleanResponse response) of
           None \<Rightarrow> wrap (render JsonSyntaxError)
         | Some (JArr scenarios) \<Rightarrow>
             (case validateAll scenarios 0 of Inl e \<Rightarrow> wrap (render e) | Inr ss \<Rightarrow> Inr ss)
         | Some other \<Rightarrow> wrap (render (Failure ''Response is not an array'')))"

definition actions :: "string list" where
  "actions = [''sign'', ''login'', ''request'', ''submit'', ''create'', ''update'', ''delete'', ''view'']"

definition extractTitle :: "string \<Rightarrow> string" where
  "extractTitle desc =
     (let words = split_on desc '' '';
          actionWords =
            filter (\<lambda>word. \<exists>action \<in> set actions. str_includes (toLowerCase word) action) words
      in if length actionWords > 0 then join actionWords '' '' else join (take 3 words) '' '')"

definition generatePositiveSteps :: "string \<Rightarrow> string list" where
  "generatePositiveSteps desc =
     (let steps = [''Navigate to the application'']
      in if str_includes (toLowerCase desc) ''sign up'' \<or> str_includes (toLowerCase desc) ''register''
         then steps @ [''Click on sign up/register link'',
                       ''Fill in valid user information'',
                       ''Submit the registration form'',
                       ''Verify email confirmation if required'']
         else if str_includes (toLowerCase desc) ''login'' \<or> str_includes (toLowerCase desc) ''sign in''
         then steps @ [''Enter valid email/username'',
                       ''Enter correct password'',
                       ''Click login button'',
                       ''Verify successful authentication'']
         else if str_includes (toLowerCase desc) ''credit report''
         then steps @ [''Log in to user account'',
                       ''Navigate to credit report section'',
                       ''Click request credit report button'',
                       ''Complete any required verification'',
                       ''Wait for report generation'',
                       ''Download or view the report'']
         else steps @ [''Perform the primary action described'',
                       ''Complete any required form fields'',
                       ''Submit the request'',
                       ''Verify successful completion''])"

definition generateNegativeSteps :: "string \<Rightarrow> string list" where
  "generateNegativeSteps desc =
     [''Navigate to the application'',
      ''Attempt to perform action with invalid/missing data'',
      ''Submit the form/request'',
      ''Observe error handling and validation messages'',
      ''Verify system prevents invalid operations'']"

definition generateEdgeCaseSteps :: "string \<Rightarrow> string list" where
  "generateEdgeCaseSteps desc =
     [''Navigate to the application'',
      ''Begin the intended action'',
      ''Simulate network interruption or slow connection'',
      ''Attempt to complete the action'',
      ''Verify system handles the error gracefully'',
      ''Test recovery mechanisms'']"

definition generateFallbackScenarios :: "UserStory \<Rightarrow> ParsedScenario list" where
  "generateFallbackScenarios userStory =
     (let baseTitle = extractTitle (description userStory)
      in [\<lparr>description = JStr (''User successfully completes: '' @ description userStory),
           title = JStr (baseTitle @ '' - Happy Path''),
           type' = JStr ''positive'',
           steps = JArr (map JStr (generatePositiveSteps (description userStory))),
           expected_outcome = JStr ''User successfully completes the action with expected results'',
           device = JStr ''desktop''\<rparr>,
          \<lparr>description = JStr (''User attempts '' @ description userStory @ '' with invalid data''),
           title = JStr (baseTitle @ '' - Invalid Input''),
           type' = JStr ''negative'',
           steps = JArr (map JStr (generateNegativeSteps (description userStory))),
           expected_outcome =
             JStr ''System displays appropriate error messages and prevents invalid actions'',
           device = JStr ''desktop''\<rparr>,
          \<lparr>description = JStr (''User attempts '' @ description userStory @ '' during network issues''),
           title = JStr (baseTitle @ '' - Network Error''),
           type' = JStr ''edge'',
           steps = JArr (map JStr (generateEdgeCaseSteps (description userStory))),
           expected_outcome =
             JStr ''System gracefully handles network errors with proper user feedback'',
           device = JStr ''desktop''\<rparr>,
          \<lparr>description = JStr (''User completes '' @ description userStory @ '' on mobile device''),
           title = JStr (baseTitle @ '' - Mobile Experience''),
           type' = JStr ''cross-device'',
           steps = JArr (map JStr (generatePositiveSteps (description userStory))),
           expected_outcome =
             JStr ''Mobile interface provides equivalent functionality with responsive design'',
           device = JStr ''mobile''\<rparr>])"

text \<open>
  \<open>expandUserStory\<close>. The call \<open>generateWithTemplate(AGENT_A_TEMPLATE, ...)\<close> is the
  parameter \<open>askModel\<close>: from the story's description to the answer text, or to the
  failure it throws. Any failure, of the call or of the parse, leads to the fallback.
\<close>

definition expandUserStory ::
  "(string \<Rightarrow> failure + string) \<Rightarrow> (string \<Rightarrow> json option) \<Rightarrow> UserStory \<Rightarrow> ParsedScenario list" where
  "expandUserStory askModel jsonParse userStory =
     (case askModel (description userStory) of
        Inl e \<Rightarrow> generateFallbackScenarios userStory
      | Inr response \<Rightarrow>
          (case parseScenarios jsonParse response of
             Inl e \<Rightarrow> generateFallbackScenarios userStory
           | Inr scenarios \<Rightarrow> scenarios))"


subsection \<open>Sample stories and model answers\<close>

definition signin_story :: UserStory where
  "signin_story = \<lparr>description = ''User signs in to their account'', acceptance_criteria = None\<rparr>"

definition answers_empty_array :: "string \<Rightarrow> failure + string" where
  \<comment> \<open>a model that answers with the JSON text of an empty array\<close>
  "answers_empty_array desc = Inr ''[]''"

definition parses_empty_array :: "string \<Rightarrow> json option" where
  \<comment> \<open>\<open>JSON.parse\<close> on the text \<open>[]\<close>; other texts are not needed and are rejected\<close>
  "parses_empty_array s = (if s = ''[]'' then Some (JArr []) else None)"

definition model_unavailable :: "string \<Rightarrow> failure + string" where
  "model_unavailable desc = Inl (Failure ''Failed to generate response with template: Error: timeout'')"





section \<open>Stage B: scenario validation\<close>

text \<open>
  Stage B takes a scenario as the interface declares it. The model call
  \<open>generateWithTemplate(AGENT_B_TEMPLATE, ...)\<close>, whose prompt is built from the scenario
  and the knowledge base, is the parameter \<open>askModel\<close>. What the model's answer holds is
  not checked, so the three added fields of a validated scenario are JSON values; the
  fallback fills them with the retrieved selectors, endpoints and notes.
\<close>

definition parseValidationResponse :: "(string \<Rightarrow> json option) \<Rightarrow> string \<Rightarrow> failure + json" where
  "parseValidationResponse jsonParse response =
     (case jsonParse (cleanResponse response) of
        None \<Rightarrow> Inl JsonSyntaxError
      | Some validation \<Rightarrow>
          (case get_field validation ''relevant_selectors'' of
             Inl e \<Rightarrow> Inl e
           | Inr v \<Rightarrow>
               (let field = (\<lambda>name. case get_field validation name of Inr v \<Rightarrow> v | Inl e \<Rightarrow> None)
                in Inr (JObj
                    [(''relevant_selectors'', or_else (field ''relevant_selectors'') (JObj [])),
                     (''relevant_endpoints'', or_else (field ''relevant_endpoints'') (JArr [])),
                     (''validation_notes'', or_else (field ''validation_notes'') (JArr [])),
                     (''confidence_score'', or_else (field ''confidence_score'') (JNum (1 / 2)))]))))"

definition performLLMValidation ::
  "(Scenario \<Rightarrow> KnowledgeBase \<Rightarrow> failure + string) \<Rightarrow> (string \<Rightarrow> json option)
     \<Rightarrow> KnowledgeBase \<Rightarrow> Scenario \<Rightarrow> failure + json" where
  "performLLMValidation askModel jsonParse kb scenario =
     (case askModel scenario kb of
        Inl e \<Rightarrow> Inl e
      | Inr response \<Rightarrow> parseValidationResponse jsonParse response)"

definition generateValidationNotes ::
  "Scenario \<Rightarrow> (string \<times> string) list \<Rightarrow> string list \<Rightarrow> string list" where
  "generateValidationNotes scenario matched routes =
     (let notes = [];
          notes = (if length matched = 0
                   then notes @ [''WARNING: No matching selectors found - may need to add custom selectors'']
                   else notes @ [''Found '' @ showNat (length matched) @ '' relevant selectors'']);
          notes = (if length routes = 0
                   then notes @ [''WARNING: No matching API endpoints found - may need API mocking'']
                   else notes @ [''Found '' @ showNat (length routes) @ '' relevant API endpoints'']);
          notes = (if device scenario = Some ''mobile''
                   then notes @ [''Mobile-specific: Ensure responsive selectors and touch interactions'']
                   else notes);
          notes = (if type' scenario = ''negative''
                   then notes @ [''Negative test: Ensure error selectors and validation messages are available'']
                   else if type' scenario = ''edge''
                   then notes @ [''Edge case: Consider network simulation and error handling'']
                   else notes)
      in notes)"

definition performFallbackValidation ::
  "KnowledgeBase \<Rightarrow> Scenario \<Rightarrow> (string, string list, string option) ValidatedScenario" where
  "performFallbackValidation kb scenario =
     (let keywords = extractKeywords
            (title scenario @ '' '' @ description scenario @ '' '' @ join (steps scenario) '' '');
          relevantSelectors = findRelevantSelectors kb keywords;
          relevantEndpoints = findRelevantEndpoints kb keywords;
          validationNotes = generateValidationNotes scenario relevantSelectors relevantEndpoints
      in \<lparr>description = description scenario,
          title = title scenario,
          type' = type' scenario,
          steps = steps scenario,
          expected_outcome = expected_outcome scenario,
          device = device scenario,
          selectors = JObj (map (\<lambda>(name, selector). (name, JStr selector)) relevantSelectors),
          api_endpoints = JArr (map JStr relevantEndpoints),
          validation_notes = JArr (map JStr validationNotes)\<rparr>)"

text \<open>\<open>LangChainAgentB.validateScenario\<close>; the Stage A method of the same name is above.\<close>

definition validateScenarioB ::
  "(Scenario \<Rightarrow> KnowledgeBase \<Rightarrow> failure + string) \<Rightarrow> (string \<Rightarrow> json option)
     \<Rightarrow> KnowledgeBase \<Rightarrow> Scenario \<Rightarrow> (string, string list, string option) ValidatedScenario" where
  "validateScenarioB askModel jsonParse kb scenario =
     (case performLLMValidation askModel jsonParse kb scenario of
        Inr validation \<Rightarrow>
          (let field = (\<lambda>name. case get_field validation name of Inr v \<Rightarrow> v | Inl e \<Rightarrow> None)
           in \<lparr>description = description scenario,
               title = title scenario,
               type' = type' scenario,
               steps = steps scenario,
               expected_outcome = expected_outcome scenario,
               device = device scenario,
               selectors = or_else (field ''relevant_selectors'') (JObj []),
               api_endpoints = or_else (field ''relevant_endpoints'') (JArr []),
               validation_notes = or_else (field ''validation_notes'') (JArr [])\<rparr>)
      | Inl e \<Rightarrow> performFallbackValidation kb scenario)"

definition signin_scenario :: Scenario where
  "signin_scenario =
     \<lparr>description = ''User signs in with a valid account'',
      title = ''Sign in'',
      type' = ''positive'',
      steps = [''Navigate to the application'', ''Click the sign_in button''],
      expected_outcome = ''Dashboard is shown'',
      device = Some ''desktop''\<rparr>"

definition validator_unavailable :: "Scenario \<Rightarrow> KnowledgeBase \<Rightarrow> failure + string" where
  "validator_unavailable scenario kb =
     Inl (Failure ''Failed to generate response with template: Error: timeout'')"


section \<open>Stage C: file names of generated tests\<close>

definition isLowerAlnum :: "char \<Rightarrow> bool" where
  \<comment> \<open>the class \<open>[a-z0-9]\<close>\<close>
  "isLowerAlnum c = (let n = (of_char c :: nat) in (48 \<le> n \<and> n \<le> 57) \<or> (97 \<le> n \<and> n \<le> 122))"

definition keptInFilename :: "char \<Rightarrow> bool" where
  \<comment> \<open>the characters that \<open>replace(/[^a-z0-9\s-]/g, '')\<close> leaves in place\<close>
  "keptInFilename c = (isLowerAlnum c \<or> isSpace c \<or> c = CHR ''-'')"

definition sanitizedTitle :: "string \<Rightarrow> string" where
  \<comment> \<open>the local \<open>sanitized\<close> of \<open>generateFilename\<close>\<close>
  "sanitizedTitle t =
     trim (replace_runs (\<lambda>c. c = CHR ''-'') ''-''
            (replace_runs isSpace ''-''
              (filter keptInFilename (toLowerCase t))))"

definition generateFilename :: "(string, 'l, string option, 'z) TestScenario_scheme \<Rightarrow> string" where
  "generateFilename scenario =
     (let sanitized = sanitizedTitle (title scenario);
          dev = (case device scenario of
                   Some d \<Rightarrow> if d \<noteq> [] then ''-'' @ d else []
                 | None \<Rightarrow> [])
      in sanitized @ dev @ ''.spec.ts'')"

text \<open>
  \<open>generateSingleTest\<close>. The model call is the parameter \<open>askModel\<close>; the template
  rendering \<open>generateFallbackTestContent\<close> does not enter the file name and is a parameter
  as well.
\<close>

definition generateLLMTestContent ::
  "('v \<Rightarrow> failure + string) \<Rightarrow> 'v \<Rightarrow> failure + string" where
  "generateLLMTestContent askModel scenario =
     (case askModel scenario of
        Inl e \<Rightarrow> Inl e
      | Inr response \<Rightarrow>
          Inr (trim (remove_fence fence
                 (remove_fence (fence @ ''ts'')
                   (remove_fence (fence @ ''typescript'') response)))))"

definition generateSingleTest ::
  "((string, 'l, string option, 'z) TestScenario_scheme \<Rightarrow> failure + string)
     \<Rightarrow> ((string, 'l, string option, 'z) TestScenario_scheme \<Rightarrow> string)
     \<Rightarrow> (string, 'l, string option, 'z) TestScenario_scheme \<Rightarrow> PlaywrightTest" where
  "generateSingleTest askModel generateFallbackTestContent scenario =
     (let name = generateFilename scenario
      in case generateLLMTestContent askModel scenario of
           Inr body \<Rightarrow> \<lparr>filename = name, content = body\<rparr>
         | Inl e \<Rightarrow> \<lparr>filename = name, content = generateFallbackTestContent scenario\<rparr>)"

definition scenario_titled :: "string \<Rightarrow> Scenario" where
  \<comment> \<open>a desktop scenario with the given title\<close>
  "scenario_titled t =
     \<lparr>description = ''User signs in'',
      title = t,
      type' = ''positive'',
      steps = [''Navigate to the application''],
      expected_outcome = ''Dashboard is shown'',
      device = Some ''desktop''\<rparr>"


section \<open>Verified properties\<close>

subsection \<open>Counting lemmas\<close>

lemma sum_list_const_int: "(\<Sum>i\<leftarrow>xs. (c::int)) = int (length xs) * c"
  by (induction xs) (simp_all add: algebra_simps)

lemma sum_list_if_int:
  "(\<Sum>i\<leftarrow>xs. if P i then (c::int) else 0) = int (length (filter P xs)) * c"
  by (induction xs) (simp_all add: algebra_simps)

lemma sum_api_deduction:
  "(\<Sum>i\<leftarrow>xs. spec_api_deduction i) =
     int (length (filter (\<lambda>i. severity i = Error) xs)) * 10
     + int (length (filter (\<lambda>i. severity i = Warning) xs)) * 5"
  by (induction xs) (simp_all add: spec_api_deduction_def)

lemma sum_selector_deduction:
  "(\<Sum>i\<leftarrow>xs. spec_selector_deduction i) =
     int (length (filter (\<lambda>i. severity i = Warning) xs)) * 3"
  unfolding spec_selector_deduction_def by (rule sum_list_if_int)

lemma sum_selector_bonus:
  "(\<Sum>i\<leftarrow>xs. spec_selector_bonus i) =
     int (length (filter (\<lambda>i. type i = good_selector) xs)) * 2"
  unfolding spec_selector_bonus_def by (rule sum_list_if_int)

lemma score_closed_form: "calculateQualityScore a = spec_score a"
  by (simp add: calculateQualityScore_def spec_score_def Let_def sum_list_const_int
      sum_api_deduction sum_selector_deduction sum_selector_bonus)


subsection \<open>The score as a formula of the issue lists\<close>

text \<open>
  Claim C2. For every test analysis, the overall score is 100, minus 15 per syntax issue,
  minus 10 per API-usage issue at error severity, minus 5 per API-usage issue at warning
  severity, minus 3 per locator-quality issue at warning severity, minus 2 per performance
  issue, minus 2 per maintainability issue, plus 2 per \<open>good_selector\<close> entry, clamped
  to the interval from 0 to 100. It is a function of the issue lists alone: the file name,
  the best-practice list, the stored score and the recommended fixes do not enter it.
\<close>

theorem C2_score_formula:
  "calculateQualityScore a = spec_score a
   \<and> calculateQualityScore a =
       max 0 (min 100
         (100
          - 15 * int (length (syntaxErrors a))
          - 10 * int (length (filter (\<lambda>i. severity i = Error) (playwrightApiIssues a)))
          - 5 * int (length (filter (\<lambda>i. severity i = Warning) (playwrightApiIssues a)))
          - 3 * int (length (filter (\<lambda>i. severity i = Warning) (selectorQualityIssues a)))
          - 2 * int (length (performanceIssues a))
          - 2 * int (length (maintainabilityIssues a))
          + 2 * int (length (filter (\<lambda>i. type i = good_selector) (selectorQualityIssues a)))))
   \<and> calculateQualityScore
         (a\<lparr>filename := f, warningsAndBestPractices := w, overallScore := s,
            recommendedFixes := r\<rparr>) = calculateQualityScore a"
proof (intro conjI)
  show "calculateQualityScore a = spec_score a"
    by (rule score_closed_form)
  show "calculateQualityScore a =
       max 0 (min 100
         (100
          - 15 * int (length (syntaxErrors a))
          - 10 * int (length (filter (\<lambda>i. severity i = Error) (playwrightApiIssues a)))
          - 5 * int (length (filter (\<lambda>i. severity i = Warning) (playwrightApiIssues a)))
          - 3 * int (length (filter (\<lambda>i. severity i = Warning) (selectorQualityIssues a)))
          - 2 * int (length (performanceIssues a))
          - 2 * int (length (maintainabilityIssues a))
          + 2 * int (length (filter (\<lambda>i. type i = good_selector) (selectorQualityIssues a)))))"
    by (simp add: calculateQualityScore_def Let_def)
  show "calculateQualityScore
         (a\<lparr>filename := f, warningsAndBestPractices := w, overallScore := s,
            recommendedFixes := r\<rparr>) = calculateQualityScore a"
    by (simp add: calculateQualityScore_def)
qed

subsection \<open>Monotonicity and range of the score\<close>

lemma clamp_mono: "(x::int) \<le> y \<Longrightarrow> max 0 (min 100 x) \<le> max 0 (min 100 y)"
  by simp

lemma score_range: "0 \<le> calculateQualityScore a \<and> calculateQualityScore a \<le> 100"
  by (simp add: calculateQualityScore_def Let_def)

lemma score_add_syntax:
  "calculateQualityScore (a\<lparr>syntaxErrors := syntaxErrors a @ [e]\<rparr>) \<le> calculateQualityScore a"
  unfolding score_closed_form spec_score_def by (rule clamp_mono) simp

lemma score_add_api:
  "calculateQualityScore (a\<lparr>playwrightApiIssues := playwrightApiIssues a @ [i]\<rparr>)
     \<le> calculateQualityScore a"
  unfolding score_closed_form spec_score_def
  by (rule clamp_mono) (simp add: spec_api_deduction_def)

lemma score_add_performance:
  "calculateQualityScore (a\<lparr>performanceIssues := performanceIssues a @ [p]\<rparr>)
     \<le> calculateQualityScore a"
  unfolding score_closed_form spec_score_def by (rule clamp_mono) simp

lemma score_add_maintainability:
  "calculateQualityScore (a\<lparr>maintainabilityIssues := maintainabilityIssues a @ [m]\<rparr>)
     \<le> calculateQualityScore a"
  unfolding score_closed_form spec_score_def by (rule clamp_mono) simp

lemma score_add_best_practice:
  "calculateQualityScore (a\<lparr>warningsAndBestPractices := warningsAndBestPractices a @ [b]\<rparr>)
     = calculateQualityScore a"
  by (simp add: calculateQualityScore_def)

lemma score_add_selector_issue:
  assumes "\<not> positive_signal q"
  shows "calculateQualityScore (a\<lparr>selectorQualityIssues := selectorQualityIssues a @ [q]\<rparr>)
     \<le> calculateQualityScore a"
  unfolding score_closed_form spec_score_def
  using assms
  by (intro clamp_mono)
     (auto simp: positive_signal_def spec_selector_deduction_def spec_selector_bonus_def)

lemma score_add_positive_signal:
  assumes "positive_signal q"
  shows "calculateQualityScore a
     \<le> calculateQualityScore (a\<lparr>selectorQualityIssues := selectorQualityIssues a @ [q]\<rparr>)"
  unfolding score_closed_form spec_score_def
  using assms
  by (intro clamp_mono)
     (auto simp: positive_signal_def spec_selector_deduction_def spec_selector_bonus_def)

text \<open>
  Claim C6. Appending an issue to any issue list of a test analysis never raises the
  score (for the selector list: any entry that is not a positive signal); appending a
  positive locator-quality signal never lowers it; the score lies between 0 and 100.
\<close>

theorem C6_score_monotonic:
  "calculateQualityScore (a\<lparr>syntaxErrors := syntaxErrors a @ [e]\<rparr>) \<le> calculateQualityScore a
   \<and> calculateQualityScore (a\<lparr>playwrightApiIssues := playwrightApiIssues a @ [i]\<rparr>)
       \<le> calculateQualityScore a
   \<and> calculateQualityScore (a\<lparr>performanceIssues := performanceIssues a @ [p]\<rparr>)
       \<le> calculateQualityScore a
   \<and> calculateQualityScore (a\<lparr>maintainabilityIssues := maintainabilityIssues a @ [m]\<rparr>)
       \<le> calculateQualityScore a
   \<and> calculateQualityScore (a\<lparr>warningsAndBestPractices := warningsAndBestPractices a @ [b]\<rparr>)
       \<le> calculateQualityScore a
   \<and> (\<not> positive_signal q \<longrightarrow>
        calculateQualityScore (a\<lparr>selectorQualityIssues := selectorQualityIssues a @ [q]\<rparr>)
          \<le> calculateQualityScore a)
   \<and> (positive_signal g \<longrightarrow>
        calculateQualityScore a
          \<le> calculateQualityScore (a\<lparr>selectorQualityIssues := selectorQualityIssues a @ [g]\<rparr>))
   \<and> 0 \<le> calculateQualityScore a \<and> calculateQualityScore a \<le> 100"
  using score_add_syntax [of a e] score_add_api [of a i] score_add_performance [of a p]
    score_add_maintainability [of a m] score_add_best_practice [of a b]
    score_add_selector_issue [of q a] score_add_positive_signal [of g a] score_range [of a]
  by simp


theorem C2_score_formula_witness:
  "calculateQualityScore one_error_analysis = 90
   \<and> spec_score one_error_analysis = 90
   \<and> calculateQualityScore (one_error_analysis\<lparr>filename := ''other.spec.ts'',
         warningsAndBestPractices := [noAssertionsIssue], overallScore := 7,
         recommendedFixes := [''fix it'']\<rparr>) = 90"
proof -
  have "calculateQualityScore one_error_analysis = 90"
    by (simp add: calculateQualityScore_def one_error_analysis_def missingAwaitIssue_def)
  with C2_score_formula [where a = one_error_analysis and f = "''other.spec.ts''"
      and w = "[noAssertionsIssue]" and s = 7 and r = "[''fix it'']"]
  show ?thesis by simp
qed

theorem C6_score_monotonic_witness:
  "\<not> positive_signal (brittleSelectorIssue 2) \<and> positive_signal (goodSelectorIssue 3)
   \<and> calculateQualityScore (one_error_analysis\<lparr>selectorQualityIssues :=
         selectorQualityIssues one_error_analysis @ [brittleSelectorIssue 2]\<rparr>)
       \<le> calculateQualityScore one_error_analysis
   \<and> calculateQualityScore one_error_analysis
       \<le> calculateQualityScore (one_error_analysis\<lparr>selectorQualityIssues :=
         selectorQualityIssues one_error_analysis @ [goodSelectorIssue 3]\<rparr>)
   \<and> calculateQualityScore (one_error_analysis\<lparr>selectorQualityIssues :=
         selectorQualityIssues one_error_analysis @ [goodSelectorIssue 3]\<rparr>) = 92"
proof -
  have a: "\<not> positive_signal (brittleSelectorIssue 2)"
    by (simp add: positive_signal_def brittleSelectorIssue_def)
  have b: "positive_signal (goodSelectorIssue 3)"
    by (simp add: positive_signal_def goodSelectorIssue_def)
  have c: "calculateQualityScore (one_error_analysis\<lparr>selectorQualityIssues :=
         selectorQualityIssues one_error_analysis @ [goodSelectorIssue 3]\<rparr>) = 92"
    by (simp add: calculateQualityScore_def one_error_analysis_def missingAwaitIssue_def
        goodSelectorIssue_def)
  from C6_score_monotonic [where a = one_error_analysis and q = "brittleSelectorIssue 2"
      and g = "goodSelectorIssue 3"] a b c
  show ?thesis by simp
qed


subsection \<open>Per-line detectors\<close>

lemma concat_enumerate_none:
  "(\<And>k x. x \<in> set xs \<Longrightarrow> f k x = []) \<Longrightarrow>
     concat (map (\<lambda>(index, line'). f index line') (enumerate n xs)) = []"
  by (induction xs arbitrary: n) simp_all

lemma forEach_line_none:
  assumes "\<And>k x. x \<in> set lines \<Longrightarrow> body k x = []"
  shows "forEach_line body lines = []"
  unfolding forEach_line_def using assms by (intro concat_enumerate_none) simp


lemma filter_forEach_line:
  "filter P (forEach_line body lines) = forEach_line (\<lambda>k x. filter P (body k x)) lines"
  by (simp add: forEach_line_def filter_concat comp_def case_prod_unfold)







subsection \<open>A single missing await\<close>




subsection \<open>Multiple navigations\<close>

lemma concat_enumerate_singletons:
  "concat (map (\<lambda>(index, line'). [h index]) (enumerate n xs)) = map h [n..<n + length xs]"
proof (induction xs arbitrary: n)
  case Nil
  then show ?case by simp
next
  case (Cons x xs)
  have "[n..<n + length (x # xs)] = n # [Suc n..<Suc n + length xs]"
    by (subst upt_rec) simp
  with Cons show ?case by simp
qed

lemma multiple_navigations_of_line:
  "filter (\<lambda>i. type i = multiple_navigations) (performanceLineIssues src n x) =
     (if navigateCount src > 1 then [multipleNavigationsIssue n] else [])"
  by (simp add: performanceLineIssues_def excessiveWaitIssue_def networkidleIssue_def
      multipleNavigationsIssue_def)

lemma multiple_navigations_absent:
  assumes "navigateCount src \<le> 1"
  shows "filter (\<lambda>i. type i = multiple_navigations) (analyzePerformanceIssues src) = []"
  unfolding analyzePerformanceIssues_def filter_forEach_line multiple_navigations_of_line
  using assms by (intro forEach_line_none) simp

lemma multiple_navigations_every_line:
  assumes "navigateCount src > 1"
  shows "map line (filter (\<lambda>i. type i = multiple_navigations) (analyzePerformanceIssues src))
           = map (\<lambda>k. int k + 1) [0..<length (split_on src newline)]"
proof -
  have "filter (\<lambda>i. type i = multiple_navigations) (analyzePerformanceIssues src)
          = concat (map (\<lambda>(index, line'). [multipleNavigationsIssue (int index + 1)])
              (enumerate 0 (split_on src newline)))"
    unfolding analyzePerformanceIssues_def filter_forEach_line multiple_navigations_of_line
    using assms by (simp add: forEach_line_def)
  then show ?thesis
    by (simp add: concat_enumerate_singletons multipleNavigationsIssue_def comp_def)
qed

text \<open>
  Claim C7. The claim reads: with more than one navigation call in the file, one
  multiple-navigations issue is flagged per line that contains a navigation call. In the
  three-line file \<open>two_navigations\<close> the calls are on lines 1 and 3, and line 2
  has none; the performance analysis flags lines 1, 2 and 3. The whole-file count is
  tested inside the per-line loop without looking at the line, so every line of the file is
  flagged (\<open>multiple_navigations_every_line\<close>). Files with at most one navigation
  call are not flagged (\<open>multiple_navigations_absent\<close>).
\<close>

theorem C7_every_line_flagged:
  "map line (filter (\<lambda>i. type i = multiple_navigations)
       (analyzePerformanceIssues two_navigations)) = [1, 2, 3]
   \<and> map (\<lambda>x. str_includes x ''goto('') (split_on two_navigations newline)
       = [True, False, True]"
  by code_simp


subsection \<open>Retry with exponential backoff\<close>

lemma showInt_3: "showInt 3 = ''3''"
  by (simp add: showInt_def digit_def)

text \<open>
  Claim C4. With \<open>maxRetries = 3\<close> and a model that fails on every call,
  \<open>generateWithRetry\<close> calls the model exactly three times, sleeps 2000 ms after the
  first failure and 4000 ms after the second (\<open>2^attempt\<close> seconds, attempt counted
  from 1), does not sleep after the third, and then raises a failure whose message carries
  the message of the last underlying error.
\<close>

theorem C4_retry_backoff:
  assumes failing: "\<And>k. model k systemPrompt userPrompt = Inl (err k)"
  shows "generateWithRetry configMaxRetries model systemPrompt userPrompt (Some 3) start =
           (Inl (Failure (''LLM failed after 3 attempts. Last error: ''
                          @ ''Failed to generate LLM response: '' @ err 2)),
            \<lparr>calls = 3, trace = [Invoke, Sleep 2000, Invoke, Sleep 4000, Invoke]\<rparr>)"
  by (simp add: generateWithRetry_def truthy_def generateResponse_def failing start_def
      sleep_def showInt_3 numeral_2_eq_2)

theorem C4_retry_backoff_witness:
  "generateWithRetry None always_failing ''system'' ''user'' (Some 3) start =
     (Inl (Failure (''LLM failed after 3 attempts. Last error: ''
                    @ ''Failed to generate LLM response: Error: timeout 2'')),
      \<lparr>calls = 3, trace = [Invoke, Sleep 2000, Invoke, Sleep 4000, Invoke]\<rparr>)"
proof -
  have "\<And>k. always_failing k ''system'' ''user'' = Inl (''Error: timeout '' @ showNat k)"
    by (simp add: always_failing_def)
  from C4_retry_backoff [where model = always_failing and err = "\<lambda>k. ''Error: timeout '' @ showNat k", OF this]
  show ?thesis by (simp add: digit_def)
qed


subsection \<open>Retrieval matching\<close>

lemma keys_inner_loop:
  "fst ` set (foldl (\<lambda>relevant (name, selector).
        if P name then AList.update (k name) selector relevant else relevant) r entries)
   = fst ` set r \<union> {k name | name selector. (name, selector) \<in> set entries \<and> P name}"
proof (induction entries arbitrary: r)
  case Nil
  then show ?case by simp
next
  case (Cons e entries)
  obtain name selector where e: "e = (name, selector)" by (cases e)
  show ?case
    unfolding e by (simp add: Cons.IH dom_update) blast
qed

lemma keys_category_loop:
  "fst ` set (foldl (\<lambda>relevant (category, selectors).
        foldl (\<lambda>relevant (name, selector).
           if entryMatches category name keyword
           then AList.update (category @ ''.'' @ name) selector relevant else relevant)
          relevant selectors) r cat)
   = fst ` set r \<union> {category @ ''.'' @ name | category selectors name selector.
        (category, selectors) \<in> set cat \<and> (name, selector) \<in> set selectors
        \<and> entryMatches category name keyword}"
proof (induction cat arbitrary: r)
  case Nil
  then show ?case by simp
next
  case (Cons e cat)
  obtain category selectors where e: "e = (category, selectors)" by (cases e)
  show ?case
    unfolding e
    by (simp add: Cons.IH
        keys_inner_loop [where P = "\<lambda>name. entryMatches category name keyword"
          and k = "\<lambda>name. category @ ''.'' @ name"]) blast
qed

lemma keys_keyword_loop:
  "fst ` set (foldl (\<lambda>relevant keyword.
        foldl (\<lambda>relevant (category, selectors).
           foldl (\<lambda>relevant (name, selector).
              if entryMatches category name keyword
              then AList.update (category @ ''.'' @ name) selector relevant else relevant)
             relevant selectors) relevant cat) r kws)
   = fst ` set r \<union> {category @ ''.'' @ name | keyword category selectors name selector.
        keyword \<in> set kws \<and> (category, selectors) \<in> set cat
        \<and> (name, selector) \<in> set selectors \<and> entryMatches category name keyword}"
proof (induction kws arbitrary: r)
  case Nil
  then show ?case by simp
next
  case (Cons kw kws)
  show ?case
    by (simp add: Cons.IH keys_category_loop) blast
qed

lemma findRelevantSelectors_keys:
  "fst ` set (findRelevantSelectors kb keywords)
   = {category @ ''.'' @ name | keyword category selectors name selector.
        keyword \<in> set keywords \<and> (category, selectors) \<in> set (kb_selectors kb)
        \<and> (name, selector) \<in> set selectors \<and> entryMatches category name keyword}"
  by (simp add: findRelevantSelectors_def keys_keyword_loop)


text \<open>
  Claim C5. The claim reads: the keyword \<open>signin\<close> matches the entry with category
  \<open>forms\<close> and name \<open>sign_in\<close>, the name being compared with its punctuation
  stripped. The retrieval loop compares the name as it stands: for the knowledge base that
  holds this one entry, the keyword \<open>signin\<close> retrieves nothing.
\<close>

theorem C5_signin_not_matched:
  "\<not> entryMatches ''forms'' ''sign_in'' ''signin''
   \<and> findRelevantSelectors signin_kb [''signin''] = []"
  by code_simp

text \<open>
  Claim C5, as the code has it. No punctuation is stripped in matching, so neither
  \<open>signin\<close> nor \<open>xyz\<close> matches the entry \<open>forms\<close>, \<open>sign_in\<close>. An entry matches a
  keyword exactly when, for the lower-cased keyword \<open>k\<close>, the name contains \<open>k\<close>, the
  category contains \<open>k\<close>, \<open>k\<close> contains the name, or \<open>k\<close> contains the category; for
  a keyword that is already lower-case this is the rule on the keyword itself. The keys
  of the retrieved selectors are exactly \<open>category.name\<close> for the entries that match
  one of the keywords.
\<close>

theorem C5_matching:
  "\<not> entryMatches ''forms'' ''sign_in'' ''signin''
   \<and> \<not> entryMatches ''forms'' ''sign_in'' ''xyz''
   \<and> (toLowerCase k = k \<longrightarrow>
        entryMatches category name k =
          (str_includes name k \<or> str_includes category k
           \<or> str_includes k name \<or> str_includes k category))
   \<and> (key \<in> fst ` set (findRelevantSelectors kb kws) \<longleftrightarrow>
        (\<exists>keyword \<in> set kws. \<exists>(category, selectors) \<in> set (kb_selectors kb).
           \<exists>(name, selector) \<in> set selectors.
             key = category @ ''.'' @ name
             \<and> (str_includes name (toLowerCase keyword)
                \<or> str_includes category (toLowerCase keyword)
                \<or> str_includes (toLowerCase keyword) name
                \<or> str_includes (toLowerCase keyword) category)))"
proof (intro conjI impI)
  show "\<not> entryMatches ''forms'' ''sign_in'' ''signin''" by code_simp
  show "\<not> entryMatches ''forms'' ''sign_in'' ''xyz''" by code_simp
  show "entryMatches category name k =
          (str_includes name k \<or> str_includes category k
           \<or> str_includes k name \<or> str_includes k category)"
    if "toLowerCase k = k"
    using that by (simp add: entryMatches_def)
  show "key \<in> fst ` set (findRelevantSelectors kb kws) \<longleftrightarrow>
        (\<exists>keyword \<in> set kws. \<exists>(category, selectors) \<in> set (kb_selectors kb).
           \<exists>(name, selector) \<in> set selectors.
             key = category @ ''.'' @ name
             \<and> (str_includes name (toLowerCase keyword)
                \<or> str_includes category (toLowerCase keyword)
                \<or> str_includes (toLowerCase keyword) name
                \<or> str_includes (toLowerCase keyword) category))"
    unfolding findRelevantSelectors_keys entryMatches_def by fastforce
qed

theorem C5_matching_witness:
  "toLowerCase ''sign'' = ''sign''
   \<and> entryMatches ''forms'' ''sign_in'' ''sign''
   \<and> ''forms.sign_in'' \<in> fst ` set (findRelevantSelectors signin_kb [''Sign''])"
proof -
  have a: "toLowerCase ''sign'' = ''sign''" by code_simp
  have b: "str_includes ''sign_in'' ''sign''" by code_simp
  have c: "\<exists>keyword \<in> set [''Sign'']. \<exists>(category, selectors) \<in> set (kb_selectors signin_kb).
           \<exists>(name, selector) \<in> set selectors.
             ''forms.sign_in'' = category @ ''.'' @ name
             \<and> (str_includes name (toLowerCase keyword)
                \<or> str_includes category (toLowerCase keyword)
                \<or> str_includes (toLowerCase keyword) name
                \<or> str_includes (toLowerCase keyword) category)"
    by code_simp
  from C5_matching [where k = "''sign''" and category = "''forms''" and name = "''sign_in''"
      and key = "''forms.sign_in''" and kb = signin_kb and kws = "[''Sign'']"] a b c
  show ?thesis by blast
qed


subsection \<open>Stage A: validation of a parsed scenario\<close>









subsection \<open>Stage A: the number and kinds of the scenarios\<close>

lemma validateScenario_accepts:
  assumes "x \<noteq> JNull" and "missingFields x = []"
  shows "\<exists>s. validateScenario x index = Inr s \<and> type' s \<in> set (map JStr scenarioTypes)"
proof -
  have "JStr ''positive'' \<in> set (map JStr scenarioTypes)"
    by (simp add: scenarioTypes_def)
  with assms show ?thesis
    by (simp add: validateScenario_def Let_def del: set_map)
qed

lemma validateAll_accepts:
  assumes "\<forall>x \<in> set xs. x \<noteq> JNull \<and> missingFields x = []"
  shows "\<exists>ss. validateAll xs index = Inr ss \<and> length ss = length xs
           \<and> (\<forall>s \<in> set ss. type' s \<in> set (map JStr scenarioTypes))"
  using assms
proof (induction xs arbitrary: index)
  case Nil
  then show ?case by simp
next
  case (Cons x xs)
  from Cons.prems obtain s where s: "validateScenario x index = Inr s"
      "type' s \<in> set (map JStr scenarioTypes)"
    using validateScenario_accepts [of x index] by auto
  from Cons.prems Cons.IH [of "index + 1"] obtain ss where ss:
      "validateAll xs (index + 1) = Inr ss" "length ss = length xs"
      "\<forall>s \<in> set ss. type' s \<in> set (map JStr scenarioTypes)"
    by auto
  show ?case
    using s ss by simp
qed

lemma parseScenarios_accepts:
  assumes "jsonParse (cleanResponse r) = Some (JArr xs)"
    and "\<forall>x \<in> set xs. x \<noteq> JNull \<and> missingFields x = []"
  shows "\<exists>ss. parseScenarios jsonParse r = Inr ss \<and> length ss = length xs
           \<and> (\<forall>s \<in> set ss. type' s \<in> set (map JStr scenarioTypes))"
  using validateAll_accepts [OF assms(2), of 0] assms(1)
  by (auto simp: parseScenarios_def Let_def)

lemma fallback_kinds:
  "length (generateFallbackScenarios userStory) = 4
   \<and> map type' (generateFallbackScenarios userStory) = map JStr scenarioTypes"
  by (simp add: generateFallbackScenarios_def Let_def scenarioTypes_def)

text \<open>
  Claim C1. The claim reads: Stage A returns exactly four scenarios, one per fixed kind,
  also when the model call and the parse succeed. When the model answers with the JSON
  text of an empty array, the call and the parse succeed and Stage A returns no scenario.
\<close>

theorem C1_model_answer_sets_the_count:
  "expandUserStory answers_empty_array parses_empty_array signin_story = []"
  by code_simp

text \<open>
  Claim C1, as the code has it. Whenever the fallback is taken (the model call fails, or
  its answer fails to parse or to validate), Stage A returns the four fallback scenarios,
  one per fixed kind, in the order positive, negative, edge, cross-device. When the model's
  answer parses to an array whose elements all have the required fields, Stage A returns
  one scenario per element of that array, whatever their number, each with a type among the
  four fixed kinds.
\<close>

theorem C1_expandUserStory:
  "(\<forall>e. askModel (description userStory) = Inl e \<longrightarrow>
       expandUserStory askModel jsonParse userStory = generateFallbackScenarios userStory)
   \<and> (\<forall>r e. askModel (description userStory) = Inr r \<and> parseScenarios jsonParse r = Inl e \<longrightarrow>
       expandUserStory askModel jsonParse userStory = generateFallbackScenarios userStory)
   \<and> length (generateFallbackScenarios userStory) = 4
   \<and> map type' (generateFallbackScenarios userStory) = map JStr scenarioTypes
   \<and> (\<forall>r xs. askModel (description userStory) = Inr r
         \<and> jsonParse (cleanResponse r) = Some (JArr xs)
         \<and> (\<forall>x \<in> set xs. x \<noteq> JNull \<and> missingFields x = []) \<longrightarrow>
       length (expandUserStory askModel jsonParse userStory) = length xs
       \<and> (\<forall>s \<in> set (expandUserStory askModel jsonParse userStory).
            type' s \<in> set (map JStr scenarioTypes)))"
proof (intro conjI allI impI)
  fix e assume "askModel (description userStory) = Inl e"
  then show "expandUserStory askModel jsonParse userStory = generateFallbackScenarios userStory"
    by (simp add: expandUserStory_def)
next
  fix r e
  assume "askModel (description userStory) = Inr r \<and> parseScenarios jsonParse r = Inl e"
  then show "expandUserStory askModel jsonParse userStory = generateFallbackScenarios userStory"
    by (simp add: expandUserStory_def)
next
  show "length (generateFallbackScenarios userStory) = 4"
    using fallback_kinds by blast
next
  show "map type' (generateFallbackScenarios userStory) = map JStr scenarioTypes"
    using fallback_kinds by blast
next
  fix r xs
  assume a: "askModel (description userStory) = Inr r
         \<and> jsonParse (cleanResponse r) = Some (JArr xs)
         \<and> (\<forall>x \<in> set xs. x \<noteq> JNull \<and> missingFields x = [])"
  then obtain ss where ss: "parseScenarios jsonParse r = Inr ss" "length ss = length xs"
      "\<forall>s \<in> set ss. type' s \<in> set (map JStr scenarioTypes)"
    using parseScenarios_accepts [of jsonParse r xs] by blast
  have e: "expandUserStory askModel jsonParse userStory = ss"
    using a ss(1) by (simp add: expandUserStory_def)
  show "length (expandUserStory askModel jsonParse userStory) = length xs"
    using e ss(2) by simp
  show "\<forall>s \<in> set (expandUserStory askModel jsonParse userStory).
            type' s \<in> set (map JStr scenarioTypes)"
    using e ss(3) by simp
qed

theorem C1_expandUserStory_witness:
  "length (expandUserStory model_unavailable parses_empty_array signin_story) = 4
   \<and> map type' (expandUserStory model_unavailable parses_empty_array signin_story)
       = map JStr scenarioTypes
   \<and> length (expandUserStory answers_empty_array parses_empty_array signin_story)
       = length ([] :: json list)"
proof -
  have a: "model_unavailable (description signin_story)
             = Inl (Failure ''Failed to generate response with template: Error: timeout'')"
    by (simp add: model_unavailable_def)
  have b: "answers_empty_array (description signin_story) = Inr ''[]''
         \<and> parses_empty_array (cleanResponse ''[]'') = Some (JArr [])
         \<and> (\<forall>x \<in> set ([] :: json list). x \<noteq> JNull \<and> missingFields x = [])"
    by code_simp
  from C1_expandUserStory [where askModel = model_unavailable and jsonParse = parses_empty_array
      and userStory = signin_story] a
  have 1: "length (expandUserStory model_unavailable parses_empty_array signin_story) = 4
   \<and> map type' (expandUserStory model_unavailable parses_empty_array signin_story)
       = map JStr scenarioTypes"
    by simp
  from C1_expandUserStory [where askModel = answers_empty_array and jsonParse = parses_empty_array
      and userStory = signin_story] b
  have 2: "length (expandUserStory answers_empty_array parses_empty_array signin_story)
             = length ([] :: json list)"
    by blast
  from 1 2 show ?thesis by blast
qed


subsection \<open>Stage C: file names\<close>

lemma set_replace_runs:
  "set (replace_runs P r s) \<subseteq> set r \<union> {c \<in> set s. \<not> P c}"
proof (induction P r s rule: replace_runs.induct)
  case (1 P r)
  then show ?case by simp
next
  case (2 P r c cs)
  show ?case
  proof (cases "P c")
    case True
    have "set (dropWhile P cs) \<subseteq> set cs"
      by (auto dest: set_dropWhileD)
    with 2(1) [OF True] True show ?thesis by auto
  next
    case False
    with 2(2) [OF False] show ?thesis by auto
  qed
qed

lemma set_trim: "set (trim s) \<subseteq> set s"
  by (auto simp: trim_def dest!: set_dropWhileD)

lemma sanitizedTitle_chars:
  assumes "c \<in> set (sanitizedTitle t)"
  shows "isLowerAlnum c \<or> c = CHR ''-''"
proof -
  let ?a = "filter keptInFilename (toLowerCase t)"
  let ?b = "replace_runs isSpace ''-'' ?a"
  let ?c = "replace_runs (\<lambda>c. c = CHR ''-'') ''-'' ?b"
  from assms have "c \<in> set ?c"
    using set_trim by (auto simp: sanitizedTitle_def)
  then have "c = CHR ''-'' \<or> c \<in> set ?b"
    using set_replace_runs [of "\<lambda>c. c = CHR ''-''" "''-''" ?b] by auto
  then have "c = CHR ''-'' \<or> (c \<in> set ?a \<and> \<not> isSpace c)"
    using set_replace_runs [of isSpace "''-''" ?a] by auto
  then show ?thesis
    by (auto simp: keptInFilename_def)
qed

lemma sanitizedTitle_cong:
  assumes "map toLowerChar (filter (\<lambda>c. keptInFilename (toLowerChar c)) t)
         = map toLowerChar (filter (\<lambda>c. keptInFilename (toLowerChar c)) t')"
  shows "sanitizedTitle t = sanitizedTitle t'"
  using assms by (simp add: sanitizedTitle_def toLowerCase_def filter_map comp_def)

lemma replace_runs_none:
  "(\<And>c. c \<in> set s \<Longrightarrow> \<not> P c) \<Longrightarrow> replace_runs P r s = s"
  by (induction s) simp_all

lemma collapse_single_hyphens:
  "\<not> sublist [h, h] s \<Longrightarrow> replace_runs (\<lambda>c. c = h) [h] s = s"
proof (induction s)
  case Nil
  then show ?case by simp
next
  case (Cons c cs)
  have tl: "\<not> sublist [h, h] cs"
    using Cons.prems by (auto simp: sublist_Cons_right)
  show ?case
  proof (cases "c = h")
    case True
    have "dropWhile (\<lambda>c. c = h) cs = cs"
    proof (cases cs)
      case Nil
      then show ?thesis by simp
    next
      case (Cons d ds)
      with True Cons.prems have "d \<noteq> h"
        by (auto simp: sublist_Cons_right)
      with Cons show ?thesis by simp
    qed
    with True Cons.IH [OF tl] show ?thesis by simp
  next
    case False
    with Cons.IH [OF tl] show ?thesis by simp
  qed
qed

lemma trim_no_space:
  assumes "\<And>c. c \<in> set s \<Longrightarrow> \<not> isSpace c"
  shows "trim s = s"
proof -
  have a: "dropWhile isSpace s = s"
    using assms by (cases s) simp_all
  have b: "dropWhile isSpace (rev s) = rev s"
    using assms by (cases "rev s") (simp, metis dropWhile.simps(2) list.set_intros(1) set_rev)
  show ?thesis by (simp add: trim_def a b)
qed

lemma toLowerChar_fixed:
  "isLowerAlnum c \<or> c = CHR ''-'' \<Longrightarrow> toLowerChar c = c"
  by (auto simp: isLowerAlnum_def toLowerChar_def Let_def)

lemma not_space_plain:
  "isLowerAlnum c \<or> c = CHR ''-'' \<Longrightarrow> \<not> isSpace c"
  by (auto simp: isLowerAlnum_def isSpace_def Let_def)

lemma sanitizedTitle_plain:
  assumes chars: "\<forall>c \<in> set t. isLowerAlnum c \<or> c = CHR ''-''"
    and single: "\<not> str_includes t ''--''"
  shows "sanitizedTitle t = t"
proof -
  have 1: "toLowerCase t = t"
    using chars by (simp add: toLowerCase_def map_idI toLowerChar_fixed)
  have 2: "filter keptInFilename t = t"
    using chars by (auto simp: keptInFilename_def filter_id_conv)
  have 3: "replace_runs isSpace ''-'' t = t"
    using chars not_space_plain by (intro replace_runs_none) blast
  have 4: "replace_runs (\<lambda>c. c = CHR ''-'') ''-'' t = t"
    using single by (intro collapse_single_hyphens) (simp add: str_includes_def)
  have 5: "trim t = t"
    using chars not_space_plain by (intro trim_no_space) blast
  show ?thesis by (simp add: sanitizedTitle_def 1 2 3 4 5)
qed


lemma generateFilename_inj_title:
  assumes "generateFilename s = generateFilename s'" and "device s = device s'"
  shows "sanitizedTitle (title s) = sanitizedTitle (title s')"
  using assms by (simp add: generateFilename_def Let_def)

lemma dropWhile_weaker:
  "(\<And>x. P x \<Longrightarrow> Q x) \<Longrightarrow> dropWhile Q (dropWhile P xs) = dropWhile Q xs"
  by (induction xs) auto

lemma filter_dropWhile_other:
  "(\<And>x. P x \<Longrightarrow> \<not> A x) \<Longrightarrow> filter A (dropWhile P xs) = filter A xs"
  by (induction xs) auto

lemma dropWhile_replace_runs:
  "dropWhile (\<lambda>c. c = h) (replace_runs P [h] xs)
     = replace_runs P [h] (dropWhile (\<lambda>c. P c \<or> c = h) xs)"
proof (induction P "[h]" xs rule: replace_runs.induct)
  case (1 P)
  then show ?case by simp
next
  case (2 P c cs)
  show ?case
  proof (cases "P c")
    case True
    have "dropWhile (\<lambda>c. P c \<or> c = h) (dropWhile P cs) = dropWhile (\<lambda>c. P c \<or> c = h) cs"
      by (rule dropWhile_weaker) simp
    with 2(1) [OF True] True show ?thesis by simp
  next
    case False
    with 2(2) [OF False] show ?thesis by simp
  qed
qed

lemma replace_runs_twice:
  "replace_runs (\<lambda>c. c = h) [h] (replace_runs P [h] s)
     = replace_runs (\<lambda>c. P c \<or> c = h) [h] s"
proof (induction "\<lambda>c. P c \<or> c = h" "[h]" s rule: replace_runs.induct)
  case 1
  then show ?case by simp
next
  case (2 c cs)
  show ?case
  proof (cases "P c \<or> c = h")
    case True
    note ih = 2(1) [OF True]
    have d: "dropWhile (\<lambda>c. P c \<or> c = h) (dropWhile P cs) = dropWhile (\<lambda>c. P c \<or> c = h) cs"
      by (rule dropWhile_weaker) simp
    show ?thesis
    proof (cases "P c")
      case True
      then show ?thesis
        using ih by (simp add: dropWhile_replace_runs d)
    next
      case False
      with True have "c = h" by simp
      with False show ?thesis
        using ih by (simp add: dropWhile_replace_runs)
    qed
  next
    case False
    with 2(2) [OF False] show ?thesis by simp
  qed
qed

lemma replace_runs_no_space:
  assumes "c \<in> set (replace_runs (\<lambda>c. isSpace c \<or> c = CHR ''-'') ''-'' s)"
  shows "\<not> isSpace c"
proof -
  from assms set_replace_runs [of "\<lambda>c. isSpace c \<or> c = CHR ''-''" "''-''" s]
  have "c = CHR ''-'' \<or> \<not> isSpace c" by auto
  then show ?thesis by (auto simp: isSpace_def)
qed

lemma sanitizedTitle_runs:
  "sanitizedTitle t =
     replace_runs (\<lambda>c. isSpace c \<or> c = CHR ''-'') ''-'' (filter keptInFilename (toLowerCase t))"
proof -
  have "sanitizedTitle t =
     trim (replace_runs (\<lambda>c. isSpace c \<or> c = CHR ''-'') ''-''
             (filter keptInFilename (toLowerCase t)))"
    by (simp add: sanitizedTitle_def replace_runs_twice)
  also have "\<dots> = replace_runs (\<lambda>c. isSpace c \<or> c = CHR ''-'') ''-''
             (filter keptInFilename (toLowerCase t))"
    by (rule trim_no_space) (rule replace_runs_no_space)
  finally show ?thesis .
qed

lemma replace_runs_no_double:
  assumes "Q h"
  shows "\<not> sublist [h, h] (replace_runs Q [h] s)"
  using assms
proof (induction Q "[h]" s rule: replace_runs.induct)
  case (1 P)
  then show ?case by simp
next
  case (2 P c cs)
  show ?case
  proof (cases "P c")
    case True
    have tl: "\<not> sublist [h, h] (replace_runs P [h] (dropWhile P cs))"
      using 2(1) [OF True] 2(3) by simp
    have hd: "\<not> prefix [h] (replace_runs P [h] (dropWhile P cs))"
    proof (cases "dropWhile P cs")
      case Nil
      show ?thesis unfolding Nil by simp
    next
      case (Cons d ds)
      have "\<not> P d"
        using hd_dropWhile [of P cs] Cons by auto
      with 2(3) have "d \<noteq> h" by auto
      with \<open>\<not> P d\<close> show ?thesis unfolding Cons by simp
    qed
    from True tl hd show ?thesis
      by (simp add: sublist_Cons_right)
  next
    case False
    with 2(3) have "c \<noteq> h" by auto
    with False 2(2) [OF False] 2(3) show ?thesis
      by (simp add: sublist_Cons_right)
  qed
qed

lemma sanitizedTitle_no_double_hyphen: "\<not> str_includes (sanitizedTitle t) ''--''"
  unfolding sanitizedTitle_runs str_includes_def
  by (rule replace_runs_no_double) simp

lemma filter_replace_runs:
  "(\<And>x. P x \<Longrightarrow> \<not> A x) \<Longrightarrow> filter A r = [] \<Longrightarrow>
     filter A (replace_runs P r s) = filter A s"
proof (induction P r s rule: replace_runs.induct)
  case (1 P r)
  then show ?case by simp
next
  case (2 P r c cs)
  show ?case
  proof (cases "P c")
    case True
    have "filter A (dropWhile P cs) = filter A cs"
      by (rule filter_dropWhile_other) (rule 2(3))
    with 2(1) [OF True 2(3) 2(4)] True 2(3) 2(4) show ?thesis by simp
  next
    case False
    with 2(2) [OF False 2(3) 2(4)] show ?thesis by simp
  qed
qed

lemma filter_trim:
  assumes "\<And>x. isSpace x \<Longrightarrow> \<not> A x"
  shows "filter A (trim s) = filter A s"
proof -
  have "filter A (trim s) = rev (filter A (dropWhile isSpace (rev (dropWhile isSpace s))))"
    by (simp add: trim_def rev_filter)
  also have "\<dots> = rev (filter A (rev (dropWhile isSpace s)))"
    using assms by (simp add: filter_dropWhile_other)
  also have "\<dots> = filter A (dropWhile isSpace s)"
    by (simp add: rev_filter)
  also have "\<dots> = filter A s"
    using assms by (simp add: filter_dropWhile_other)
  finally show ?thesis .
qed

lemma alnum_not_space: "isLowerAlnum c \<Longrightarrow> \<not> isSpace c"
  by (auto simp: isLowerAlnum_def isSpace_def Let_def)

lemma sanitizedTitle_letters:
  "filter isLowerAlnum (sanitizedTitle t) = filter isLowerAlnum (toLowerCase t)"
proof -
  have h: "filter isLowerAlnum ''-'' = []"
    by (simp add: isLowerAlnum_def)
  have "filter isLowerAlnum (sanitizedTitle t)
          = filter isLowerAlnum (filter keptInFilename (toLowerCase t))"
    unfolding sanitizedTitle_runs
    using alnum_not_space h by (intro filter_replace_runs) (auto simp: isLowerAlnum_def)
  also have "\<dots> = filter isLowerAlnum (toLowerCase t)"
    by (auto simp: keptInFilename_def intro: filter_cong)
  finally show ?thesis .
qed

lemma distinct_letters_distinct_names:
  assumes "filter isLowerAlnum (toLowerCase (title s)) \<noteq> filter isLowerAlnum (toLowerCase (title s'))"
    and "device s = device s'"
  shows "generateFilename s \<noteq> generateFilename s'"
proof
  assume "generateFilename s = generateFilename s'"
  then have "sanitizedTitle (title s) = sanitizedTitle (title s')"
    using assms(2) by (rule generateFilename_inj_title)
  then have "filter isLowerAlnum (sanitizedTitle (title s))
               = filter isLowerAlnum (sanitizedTitle (title s'))"
    by simp
  with assms(1) show False
    by (simp add: sanitizedTitle_letters)
qed

text \<open>
  Claim C9. The claim reads: the file name is the lower-cased title with non-alphanumeric
  characters collapsed to hyphens, and two scenarios with distinct titles never collide.
  The titles \<open>Sign in\<close> and \<open>Sign In!\<close> are distinct and get the same file name; in
  \<open>User logs in/out\<close> the slash is deleted, not turned into a hyphen.
\<close>

theorem C9_distinct_titles_collide:
  "generateFilename (scenario_titled ''Sign in'') = ''sign-in-desktop.spec.ts''
   \<and> generateFilename (scenario_titled ''Sign In!'') = ''sign-in-desktop.spec.ts''
   \<and> generateFilename (scenario_titled ''User logs in/out'') = ''user-logs-inout-desktop.spec.ts''"
  by code_simp

text \<open>
  Claim C9, as the code has it. The file name of a generated test is the same on the
  model path and on the fallback path, and is a function of title and device alone: the
  sanitized title, then a hyphen and the device when a device is set, then \<open>.spec.ts\<close>.
  The sanitized title is the title lower-cased, with every character other than a
  lower-case letter, a digit, whitespace or a hyphen deleted, and each maximal run of
  whitespace and hyphens replaced by one hyphen; it consists of lower-case letters, digits
  and hyphens only and never has two hyphens in a row. For the same device, two titles
  get the same file name exactly when their sanitized titles are equal. So titles that
  agree after lower-casing and deleting those characters collide, while titles whose
  lower-cased sequences of letters and digits differ never collide. A title that is
  already made of lower-case letters, digits and single hyphens is its own sanitized form,
  so two distinct such titles never collide either.
\<close>

theorem C9_filename:
  "filename (generateSingleTest askModel generateFallbackTestContent s) = generateFilename s
   \<and> (title s = title s' \<and> device s = device s' \<longrightarrow> generateFilename s = generateFilename s')
   \<and> generateFilename s =
       sanitizedTitle (title s)
       @ (case device s of Some d \<Rightarrow> if d \<noteq> [] then ''-'' @ d else [] | None \<Rightarrow> [])
       @ ''.spec.ts''
   \<and> (\<forall>c \<in> set (sanitizedTitle (title s)). isLowerAlnum c \<or> c = CHR ''-'')
   \<and> (map toLowerChar (filter (\<lambda>c. keptInFilename (toLowerChar c)) (title s))
        = map toLowerChar (filter (\<lambda>c. keptInFilename (toLowerChar c)) (title s'))
       \<and> device s = device s' \<longrightarrow> generateFilename s = generateFilename s')
   \<and> ((\<forall>c \<in> set (title s). isLowerAlnum c \<or> c = CHR ''-'') \<and> \<not> str_includes (title s) ''--''
       \<longrightarrow> sanitizedTitle (title s) = title s)
   \<and> ((\<forall>c \<in> set (title s). isLowerAlnum c \<or> c = CHR ''-'') \<and> \<not> str_includes (title s) ''--''
       \<and> (\<forall>c \<in> set (title s'). isLowerAlnum c \<or> c = CHR ''-'') \<and> \<not> str_includes (title s') ''--''
       \<and> device s = device s' \<and> title s \<noteq> title s'
       \<longrightarrow> generateFilename s \<noteq> generateFilename s')
   \<and> sanitizedTitle (title s) =
       replace_runs (\<lambda>c. isSpace c \<or> c = CHR ''-'') ''-''
         (filter (\<lambda>c. isLowerAlnum c \<or> isSpace c \<or> c = CHR ''-'') (map toLowerChar (title s)))
   \<and> \<not> str_includes (sanitizedTitle (title s)) ''--''
   \<and> filter isLowerAlnum (sanitizedTitle (title s)) = filter isLowerAlnum (map toLowerChar (title s))
   \<and> (device s = device s' \<longrightarrow>
        (generateFilename s = generateFilename s')
          = (sanitizedTitle (title s) = sanitizedTitle (title s')))
   \<and> (filter isLowerAlnum (map toLowerChar (title s))
          \<noteq> filter isLowerAlnum (map toLowerChar (title s'))
        \<and> device s = device s' \<longrightarrow> generateFilename s \<noteq> generateFilename s')"
proof (intro conjI impI ballI)
  show "filename (generateSingleTest askModel generateFallbackTestContent s) = generateFilename s"
    by (simp add: generateSingleTest_def Let_def split: sum.split)
next
  assume "title s = title s' \<and> device s = device s'"
  then show "generateFilename s = generateFilename s'"
    by (simp add: generateFilename_def)
next
  show "generateFilename s =
       sanitizedTitle (title s)
       @ (case device s of Some d \<Rightarrow> if d \<noteq> [] then ''-'' @ d else [] | None \<Rightarrow> [])
       @ ''.spec.ts''"
    by (simp add: generateFilename_def Let_def)
next
  fix c assume "c \<in> set (sanitizedTitle (title s))"
  then show "isLowerAlnum c \<or> c = CHR ''-''"
    by (rule sanitizedTitle_chars)
next
  assume "map toLowerChar (filter (\<lambda>c. keptInFilename (toLowerChar c)) (title s))
        = map toLowerChar (filter (\<lambda>c. keptInFilename (toLowerChar c)) (title s'))
       \<and> device s = device s'"
  then show "generateFilename s = generateFilename s'"
    using sanitizedTitle_cong [of "title s" "title s'"] by (simp add: generateFilename_def)
next
  assume "(\<forall>c \<in> set (title s). isLowerAlnum c \<or> c = CHR ''-'') \<and> \<not> str_includes (title s) ''--''"
  then show "sanitizedTitle (title s) = title s"
    by (simp add: sanitizedTitle_plain)
next
  assume a: "(\<forall>c \<in> set (title s). isLowerAlnum c \<or> c = CHR ''-'') \<and> \<not> str_includes (title s) ''--''
       \<and> (\<forall>c \<in> set (title s'). isLowerAlnum c \<or> c = CHR ''-'') \<and> \<not> str_includes (title s') ''--''
       \<and> device s = device s' \<and> title s \<noteq> title s'"
  then have "sanitizedTitle (title s) = title s" "sanitizedTitle (title s') = title s'"
    by (simp_all add: sanitizedTitle_plain)
  with a show "generateFilename s \<noteq> generateFilename s'"
    using generateFilename_inj_title [of s s'] by auto
next
  have "keptInFilename = (\<lambda>c. isLowerAlnum c \<or> isSpace c \<or> c = CHR ''-'')"
    by (rule ext) (simp add: keptInFilename_def)
  then show "sanitizedTitle (title s) =
       replace_runs (\<lambda>c. isSpace c \<or> c = CHR ''-'') ''-''
         (filter (\<lambda>c. isLowerAlnum c \<or> isSpace c \<or> c = CHR ''-'') (map toLowerChar (title s)))"
    by (simp add: sanitizedTitle_runs toLowerCase_def)
next
  show "\<not> str_includes (sanitizedTitle (title s)) ''--''"
    by (rule sanitizedTitle_no_double_hyphen)
next
  show "filter isLowerAlnum (sanitizedTitle (title s)) = filter isLowerAlnum (map toLowerChar (title s))"
    using sanitizedTitle_letters [of "title s"] by (simp add: toLowerCase_def)
next
  assume "device s = device s'"
  then show "(generateFilename s = generateFilename s')
          = (sanitizedTitle (title s) = sanitizedTitle (title s'))"
    by (simp add: generateFilename_def Let_def)
next
  assume "filter isLowerAlnum (map toLowerChar (title s))
          \<noteq> filter isLowerAlnum (map toLowerChar (title s'))
        \<and> device s = device s'"
  then show "generateFilename s \<noteq> generateFilename s'"
    using distinct_letters_distinct_names [of s s'] by (simp add: toLowerCase_def)
qed

theorem C9_filename_witness:
  "filename (generateSingleTest (\<lambda>s. Inl TypeError) (\<lambda>s. ''// fallback'') (scenario_titled ''Sign In!''))
     = ''sign-in-desktop.spec.ts''
   \<and> filename (generateSingleTest (\<lambda>s. Inr ''// generated'') (\<lambda>s. ''// fallback'') (scenario_titled ''Sign In!''))
     = ''sign-in-desktop.spec.ts''
   \<and> generateFilename (scenario_titled ''Sign In!'') = generateFilename (scenario_titled ''sign in'')
   \<and> sanitizedTitle (title (scenario_titled ''sign-in'')) = title (scenario_titled ''sign-in'')
   \<and> generateFilename (scenario_titled ''sign-in'') \<noteq> generateFilename (scenario_titled ''sign-up'')
   \<and> generateFilename (scenario_titled ''Sign in'') \<noteq> generateFilename (scenario_titled ''Sign up'')
   \<and> generateFilename (scenario_titled ''signs - Happy Path'') = ''signs-happy-path-desktop.spec.ts''
   \<and> \<not> str_includes (sanitizedTitle (title (scenario_titled ''signs - Happy Path''))) ''--''"
proof -
  have f: "generateFilename (scenario_titled ''Sign In!'') = ''sign-in-desktop.spec.ts''"
    by code_simp
  have g: "generateFilename (scenario_titled ''signs - Happy Path'') = ''signs-happy-path-desktop.spec.ts''"
    by code_simp
  have same: "map toLowerChar (filter (\<lambda>c. keptInFilename (toLowerChar c))
                  (title (scenario_titled ''Sign In!'')))
        = map toLowerChar (filter (\<lambda>c. keptInFilename (toLowerChar c))
                  (title (scenario_titled ''sign in'')))
       \<and> device (scenario_titled ''Sign In!'') = device (scenario_titled ''sign in'')"
  proof -
    have "map toLowerChar (filter (\<lambda>c. keptInFilename (toLowerChar c)) ''Sign In!'') = ''sign in''"
      by (simp add: keptInFilename_def toLowerChar_def isLowerAlnum_def isSpace_def Let_def)
         code_simp
    moreover
    have "map toLowerChar (filter (\<lambda>c. keptInFilename (toLowerChar c)) ''sign in'') = ''sign in''"
      by (simp add: keptInFilename_def toLowerChar_def isLowerAlnum_def isSpace_def Let_def)
    ultimately show ?thesis
      by (simp add: scenario_titled_def)
  qed
  have letters: "filter isLowerAlnum (map toLowerChar (title (scenario_titled ''Sign in'')))
          \<noteq> filter isLowerAlnum (map toLowerChar (title (scenario_titled ''Sign up'')))
        \<and> device (scenario_titled ''Sign in'') = device (scenario_titled ''Sign up'')"
  proof -
    have "filter isLowerAlnum (map toLowerChar ''Sign in'') = ''signin''"
      by (simp add: toLowerChar_def isLowerAlnum_def Let_def) code_simp
    moreover
    have "filter isLowerAlnum (map toLowerChar ''Sign up'') = ''signup''"
      by (simp add: toLowerChar_def isLowerAlnum_def Let_def) code_simp
    ultimately show ?thesis
      by (simp add: scenario_titled_def)
  qed
  have plain1: "(\<forall>c \<in> set (title (scenario_titled ''sign-in'')). isLowerAlnum c \<or> c = CHR ''-'')
       \<and> \<not> str_includes (title (scenario_titled ''sign-in'')) ''--''"
    by code_simp
  have plain2: "(\<forall>c \<in> set (title (scenario_titled ''sign-in'')). isLowerAlnum c \<or> c = CHR ''-'')
       \<and> \<not> str_includes (title (scenario_titled ''sign-in'')) ''--''
       \<and> (\<forall>c \<in> set (title (scenario_titled ''sign-up'')). isLowerAlnum c \<or> c = CHR ''-'')
       \<and> \<not> str_includes (title (scenario_titled ''sign-up'')) ''--''
       \<and> device (scenario_titled ''sign-in'') = device (scenario_titled ''sign-up'')
       \<and> title (scenario_titled ''sign-in'') \<noteq> title (scenario_titled ''sign-up'')"
    by code_simp
  note down = C9_filename [where s = "scenario_titled ''Sign In!''" and askModel = "\<lambda>s. Inl TypeError"
      and generateFallbackTestContent = "\<lambda>s. ''// fallback''"]
  note up = C9_filename [where s = "scenario_titled ''Sign In!''" and askModel = "\<lambda>s. Inr ''// generated''"
      and generateFallbackTestContent = "\<lambda>s. ''// fallback''"]
  note pair = C9_filename [where s = "scenario_titled ''Sign In!''" and s' = "scenario_titled ''sign in''"]
  note plain = C9_filename [where s = "scenario_titled ''sign-in''" and s' = "scenario_titled ''sign-up''"]
  note words = C9_filename [where s = "scenario_titled ''Sign in''" and s' = "scenario_titled ''Sign up''"]
  note runs = C9_filename [where s = "scenario_titled ''signs - Happy Path''"]
  have 1: "filename (generateSingleTest (\<lambda>s. Inl TypeError) (\<lambda>s. ''// fallback'')
             (scenario_titled ''Sign In!'')) = ''sign-in-desktop.spec.ts''"
    using down [THEN conjunct1] f by (rule trans)
  have 2: "filename (generateSingleTest (\<lambda>s. Inr ''// generated'') (\<lambda>s. ''// fallback'')
             (scenario_titled ''Sign In!'')) = ''sign-in-desktop.spec.ts''"
    using up [THEN conjunct1] f by (rule trans)
  have 3: "generateFilename (scenario_titled ''Sign In!'') = generateFilename (scenario_titled ''sign in'')"
    using pair [THEN conjunct2, THEN conjunct2, THEN conjunct2, THEN conjunct2, THEN conjunct1] same
    by (rule mp)
  have 4: "sanitizedTitle (title (scenario_titled ''sign-in'')) = title (scenario_titled ''sign-in'')"
    using plain [THEN conjunct2, THEN conjunct2, THEN conjunct2, THEN conjunct2, THEN conjunct2, THEN conjunct1] plain1
    by (rule mp)
  have 5: "generateFilename (scenario_titled ''sign-in'') \<noteq> generateFilename (scenario_titled ''sign-up'')"
    using plain [THEN conjunct2, THEN conjunct2, THEN conjunct2, THEN conjunct2, THEN conjunct2, THEN conjunct2, THEN conjunct1] plain2
    by (rule mp)
  have 6: "generateFilename (scenario_titled ''Sign in'') \<noteq> generateFilename (scenario_titled ''Sign up'')"
    using words [THEN conjunct2, THEN conjunct2, THEN conjunct2, THEN conjunct2, THEN conjunct2, THEN conjunct2, THEN conjunct2, THEN conjunct2, THEN conjunct2, THEN conjunct2, THEN conjunct2] letters
    by (rule mp)
  have 7: "\<not> str_includes (sanitizedTitle (title (scenario_titled ''signs - Happy Path''))) ''--''"
    by (rule runs [THEN conjunct2, THEN conjunct2, THEN conjunct2, THEN conjunct2, THEN conjunct2, THEN conjunct2, THEN conjunct2, THEN conjunct2, THEN conjunct1])
  from 1 2 3 4 5 6 g 7 show ?thesis by (intro conjI)
qed


subsection \<open>Stage B: the scenario is preserved\<close>

text \<open>
  Claim C10. Stage B validation leaves the scenario as it was: on the model path and on
  the fallback path alike, the validated scenario has the title, type, description, steps,
  expected outcome and device of its input, and differs from it only by the three added
  fields \<open>selectors\<close>, \<open>api_endpoints\<close> and \<open>validation_notes\<close>.
\<close>

theorem C10_validation_preserves_scenario:
  "title (validateScenarioB askModel jsonParse kb scenario) = title scenario
   \<and> type' (validateScenarioB askModel jsonParse kb scenario) = type' scenario
   \<and> description (validateScenarioB askModel jsonParse kb scenario) = description scenario
   \<and> steps (validateScenarioB askModel jsonParse kb scenario) = steps scenario
   \<and> expected_outcome (validateScenarioB askModel jsonParse kb scenario) = expected_outcome scenario
   \<and> device (validateScenarioB askModel jsonParse kb scenario) = device scenario
   \<and> TestScenario.truncate (validateScenarioB askModel jsonParse kb scenario) = scenario
   \<and> TestScenario.truncate (performFallbackValidation kb scenario) = scenario"
  by (simp add: validateScenarioB_def performFallbackValidation_def Let_def
      TestScenario.truncate_def Described.truncate_def split: sum.split)

theorem C10_validation_preserves_scenario_witness:
  "title (validateScenarioB validator_unavailable parses_empty_array signin_kb signin_scenario)
     = ''Sign in''
   \<and> device (validateScenarioB validator_unavailable parses_empty_array signin_kb signin_scenario)
     = Some ''desktop''
   \<and> selectors (validateScenarioB validator_unavailable parses_empty_array signin_kb signin_scenario)
     = JObj [(''forms.sign_in'', JStr ''#sign-in'')]"
proof -
  have "selectors (validateScenarioB validator_unavailable parses_empty_array signin_kb signin_scenario)
     = JObj [(''forms.sign_in'', JStr ''#sign-in'')]"
    by code_simp
  with C10_validation_preserves_scenario [where askModel = validator_unavailable
      and jsonParse = parses_empty_array and kb = signin_kb and scenario = signin_scenario]
  show ?thesis by (simp add: signin_scenario_def)
qed

end
